theory Spec2Isabelle
  imports Complex_Main
begin

section \<open>The streaming audio shader: data model\<close>

text \<open>
  The development embeds the streaming variant of \<open>WebGLAudioShader\<close>: the class on the
  page's main thread (generation loop, playback scheduling, lifecycle) and the script of
  its render worker. Seconds and sample rates are JavaScript numbers in the source; they
  are rational numbers here, so the rounding of IEEE arithmetic on them is outside the
  model. Sample counts are natural numbers. Sample values are floats that the graphics
  driver computes (\<open>float32\<close> below); the model does no arithmetic on them.

  Every reading of the audio device's clock, \<open>audioContext.currentTime\<close>, is an
  argument \<open>now\<close> of the function that reads it.
\<close>

type_synonym seconds = rat

text \<open>
  The value of a 32-bit float, as a shader computes it and a \<open>Float32Array\<close> holds
  it: a number, an infinity or not-a-number. A fresh \<open>Float32Array\<close> and a fresh
  texture hold \<open>Finite 0\<close>.
\<close>

datatype float32 = Finite rat | PlusInfinity | MinusInfinity | NaN

subsection \<open>Messages between the page and the worker\<close>

text \<open>The strings the worker posts under \<open>type: 'error'\<close>, one constructor for each.\<close>

datatype workerError =
    WebGL2NotSupported
  | FloatTexturesNotSupported
  | ShaderError string
  | ShaderLinkError string
  | FramebufferError
  | GenerationFailed

text \<open>
  What the page posts to the worker (\<open>init\<close>, \<open>render\<close>, \<open>updateShader\<close>; the
  transferred canvas of \<open>init\<close> carries no information) and what the worker posts back
  (\<open>ready\<close>, \<open>maxTextureSize\<close>, \<open>audioData\<close>, \<open>error\<close>).
\<close>

datatype request =
    Init string
  | Render nat rat seconds
  | UpdateShader string

datatype reply =
    Ready
  | MaxTextureSize nat
  | AudioData "float32 list"
  | Error workerError

fun isRender :: "request \<Rightarrow> bool" where
  "isRender (Render n r t) = True"
| "isRender _ = False"

subsection \<open>The objects of the platform the class holds\<close>

datatype jsError = TypeError | InvalidStateError | NotSupportedError

text \<open>
  A function of the source that can throw returns \<open>Return s\<close> or \<open>Throw e s\<close>; both
  carry the instance as the call left it, since an exception undoes no assignment.
\<close>

datatype 'a result = Return 'a | Throw jsError 'a

fun stateOf :: "'a result \<Rightarrow> 'a" where
  "stateOf (Return s) = s"
| "stateOf (Throw e s) = s"

fun returned :: "'a result \<Rightarrow> bool" where
  "returned (Return s) = True"
| "returned (Throw e s) = False"

text \<open>
  An \<open>AudioBuffer\<close> of two channels; its \<open>duration\<close> is its length in frames over
  its sample rate.
\<close>

record AudioBuffer =
  channel0 :: "float32 list"
  channel1 :: "float32 list"
  bufferRate :: rat

definition duration :: "AudioBuffer \<Rightarrow> seconds" where
  "duration b = of_nat (length (channel0 b)) / bufferRate b"

text \<open>
  An \<open>AudioBufferSourceNode\<close>: its buffer, the time given to \<open>start\<close>, whether
  \<open>stop\<close> has been called on it, and whether it is connected to the destination.
\<close>

record AudioBufferSourceNode =
  buffer :: "AudioBuffer option"
  startedAt :: "seconds option"
  stopped :: bool
  isConnected :: bool

datatype contextState = Suspended | Running | Closed

text \<open>The \<open>AudioContext\<close>: its sample rate and its state.\<close>

record AudioContext =
  sampleRate :: rat
  contextState :: contextState

definition new_AudioContext :: "rat \<Rightarrow> AudioContext" where
  "new_AudioContext rate = \<lparr> sampleRate = rate, contextState = Suspended \<rparr>"

text \<open>
  \<open>resume()\<close> and \<open>close()\<close> return a promise. On a closed context the Web Audio
  API rejects it with \<open>InvalidStateError\<close>; the second component is that rejection.
\<close>

definition resume :: "AudioContext \<Rightarrow> AudioContext \<times> jsError option" where
  "resume c = (if contextState c = Closed then (c, Some InvalidStateError)
               else (c\<lparr> contextState := Running \<rparr>, None))"

definition close :: "AudioContext \<Rightarrow> AudioContext \<times> jsError option" where
  "close c = (if contextState c = Closed then (c, Some InvalidStateError)
              else (c\<lparr> contextState := Closed \<rparr>, None))"

text \<open>
  The page's handle of the worker: the requests posted and not yet taken by the worker,
  and whether \<open>terminate()\<close> has been called. Posting to a terminated worker is
  dropped without an exception.
\<close>

record Worker =
  posted :: "request list"
  terminated :: bool

definition new_Worker :: Worker where
  "new_Worker = \<lparr> posted = [], terminated = False \<rparr>"

definition postMessage :: "request \<Rightarrow> Worker \<Rightarrow> Worker" where
  "postMessage m w = (if terminated w then w else w\<lparr> posted := posted w @ [m] \<rparr>)"

definition terminate :: "Worker \<Rightarrow> Worker" where
  "terminate w = w\<lparr> terminated := True \<rparr>"

text \<open>
  What reaches the page's console: the \<open>console.error\<close> of the message handler, and a
  rejected promise that nobody handles.
\<close>

datatype consoleEntry = WorkerErrorLogged workerError | UnhandledRejection jsError

subsection \<open>The instance\<close>

text \<open>
  The fields of the class as the constructor declares them, and \<open>workerReady\<close>
  (assigned first by \<open>setShader\<close>; \<open>undefined\<close>, so falsy, before). Two more
  components are not fields of the class: \<open>nodes\<close>, the source nodes created so far
  (\<open>scheduledSources\<close> refers to a node by its index there, which stands for the
  object's identity), and the console, where the error reports go.
\<close>

record WebGLAudioShader =
  audioContext :: "AudioContext option"
  isRunning :: bool
  currentTime :: seconds
  scheduledUntil :: seconds
  renderWorker :: "Worker option"
  shaderCode :: "string option"
  scheduledSources :: "nat list"
  maxTextureSize :: nat
  bufferAheadTime :: seconds
  generating :: bool
  workerReady :: bool
  nodes :: "AudioBufferSourceNode list"
  console :: "consoleEntry list"

definition constructor :: WebGLAudioShader where
  "constructor = \<lparr>
     audioContext = None,
     isRunning = False,
     currentTime = 0,
     scheduledUntil = 0,
     renderWorker = None,
     shaderCode = None,
     scheduledSources = [],
     maxTextureSize = 4096,
     bufferAheadTime = 1,
     generating = False,
     workerReady = False,
     nodes = [],
     console = [] \<rparr>"

definition unhandled :: "jsError option \<Rightarrow> consoleEntry list" where
  "unhandled r = (case r of None \<Rightarrow> [] | Some e \<Rightarrow> [UnhandledRejection e])"

section \<open>Lifecycle: start, stop, dispose\<close>

text \<open>
  \<open>start()\<close>: nothing when running; else it sets the flag, resumes the context (the
  promise is dropped) and initialises the timeline. On an instance that \<open>init\<close> has not
  given a context, \<open>this.audioContext.resume()\<close> throws after the flag is set.
\<close>

definition start :: "seconds \<Rightarrow> WebGLAudioShader \<Rightarrow> WebGLAudioShader result" where
  "start now s =
     (if isRunning s then Return s
      else
        let s1 = s\<lparr> isRunning := True \<rparr> in
        case audioContext s1 of
          None \<Rightarrow> Throw TypeError s1
        | Some c \<Rightarrow>
            let (c', rejection) = resume c;
                s2 = s1\<lparr> audioContext := Some c', console := console s1 @ unhandled rejection \<rparr>
            in Return (s2\<lparr> scheduledUntil := now, currentTime := 0 \<rparr>))"

text \<open>
  The body of the \<open>forEach\<close> of \<open>stop()\<close>:
  \<open>try { source.stop(); source.disconnect() } catch (e) {}\<close>.
  \<open>stop()\<close> on a node that was never started throws \<open>InvalidStateError\<close>, which the
  \<open>catch\<close> swallows, and then \<open>disconnect()\<close> is not reached.
\<close>

definition haltSource :: "AudioBufferSourceNode \<Rightarrow> AudioBufferSourceNode" where
  "haltSource n = (if startedAt n = None then n else n\<lparr> stopped := True, isConnected := False \<rparr>)"

fun forEachSource :: "nat list \<Rightarrow> AudioBufferSourceNode list \<Rightarrow> AudioBufferSourceNode list" where
  "forEachSource [] ns = ns"
| "forEachSource (i # is) ns = forEachSource is (ns[i := haltSource (ns ! i)])"

definition stop :: "WebGLAudioShader \<Rightarrow> WebGLAudioShader" where
  "stop s =
     (let s1 = s\<lparr> isRunning := False \<rparr>;
          s2 = s1\<lparr> nodes := forEachSource (scheduledSources s1) (nodes s1) \<rparr>;
          s3 = s2\<lparr> scheduledSources := [] \<rparr>
      in s3\<lparr> currentTime := 0, scheduledUntil := 0 \<rparr>)"

text \<open>
  \<open>dispose()\<close>: \<open>stop()\<close>, then \<open>terminate()\<close> when there is a worker and
  \<open>close()\<close> when there is a context. Neither field is ever set back to \<open>null\<close>, and
  the promise of \<open>close()\<close> is dropped.
\<close>

definition dispose :: "WebGLAudioShader \<Rightarrow> WebGLAudioShader" where
  "dispose s =
     (let s1 = stop s;
          s2 = (case renderWorker s1 of
                  None \<Rightarrow> s1
                | Some w \<Rightarrow> s1\<lparr> renderWorker := Some (terminate w) \<rparr>)
      in case audioContext s2 of
           None \<Rightarrow> s2
         | Some c \<Rightarrow>
             let (c', rejection) = close c
             in s2\<lparr> audioContext := Some c', console := console s2 @ unhandled rejection \<rparr>)"

section \<open>The generation loop\<close>

text \<open>
  One invocation of \<open>generationLoop()\<close>. The request for the next animation frame, made
  on both normal paths, is the caller's business (see \<open>step\<close> below); an exception
  leaves the loop without it.
\<close>

definition generationLoop :: "seconds \<Rightarrow> WebGLAudioShader \<Rightarrow> WebGLAudioShader result" where
  "generationLoop now s =
     (if \<not> isRunning s then Return s
      else
        case audioContext s of
          None \<Rightarrow> Throw TypeError s
        | Some c \<Rightarrow>
            let bufferedTime = scheduledUntil s - now in
            if bufferedTime < bufferAheadTime s \<and> workerReady s \<and> \<not> generating s then
              let s1 = s\<lparr> generating := True \<rparr>;
                  maxSafeSamples = min (maxTextureSize s1) 8192
              in case renderWorker s1 of
                   None \<Rightarrow> Throw TypeError s1
                 | Some w \<Rightarrow>
                     Return (s1\<lparr> renderWorker :=
                       Some (postMessage (Render maxSafeSamples (sampleRate c) (currentTime s1)) w) \<rparr>)
            else Return s)"

section \<open>The playback scheduler\<close>

text \<open>
  The loop of \<open>onAudioDataGenerated\<close> that splits the interleaved chunk:
  \<open>for (let i = 0; i < numSamples; i++) { leftChannel[i] = audioData[i * 2];
  rightChannel[i] = audioData[i * 2 + 1] }\<close>. A write beyond the end of a typed array
  is ignored, as \<open>list_update\<close> does.
\<close>

function fillChannels ::
  "nat \<Rightarrow> nat \<Rightarrow> float32 list \<Rightarrow> float32 list \<times> float32 list \<Rightarrow>
     float32 list \<times> float32 list" where
  "fillChannels i numSamples audioData (leftChannel, rightChannel) =
     (if i < numSamples then
        fillChannels (i + 1) numSamples audioData
          (leftChannel[i := audioData ! (i * 2)], rightChannel[i := audioData ! (i * 2 + 1)])
      else (leftChannel, rightChannel))"
  by pat_completeness auto
termination
  by (relation "measure (\<lambda>(i, numSamples, audioData, chans). numSamples - i)") auto

declare fillChannels.simps [simp del]

text \<open>
  \<open>createBuffer(2, numSamples, sampleRate)\<close>: two zero-filled channels. The frame count
  is \<open>audioData.length / 2\<close> converted to an unsigned integer, which truncates the half
  frame of an odd length (there the loop above runs once more and both its writes are out
  of range). The Web Audio API throws \<open>NotSupportedError\<close> for a buffer of no frames.
\<close>

definition createBuffer :: "nat \<Rightarrow> rat \<Rightarrow> AudioBuffer option" where
  "createBuffer numSamples rate =
     (if numSamples = 0 then None
      else Some \<lparr> channel0 = replicate numSamples (Finite 0),
                  channel1 = replicate numSamples (Finite 0),
                  bufferRate = rate \<rparr>)"

text \<open>
  \<open>onAudioDataGenerated(audioData)\<close>. The new node is created, given the buffer,
  connected, started at \<open>startTime\<close> and pushed onto \<open>scheduledSources\<close>; its index in
  \<open>nodes\<close> is the length of the list before.
\<close>

definition onAudioDataGenerated ::
  "seconds \<Rightarrow> float32 list \<Rightarrow> WebGLAudioShader \<Rightarrow> WebGLAudioShader result" where
  "onAudioDataGenerated now audioData s =
     (if \<not> isRunning s then Return s
      else
        case audioContext s of
          None \<Rightarrow> Throw TypeError s
        | Some c \<Rightarrow>
            let numSamples = length audioData div 2 in
            (case createBuffer numSamples (sampleRate c) of
              None \<Rightarrow> Throw NotSupportedError s
            | Some b0 \<Rightarrow>
                let (leftChannel, rightChannel) =
                      fillChannels 0 numSamples audioData (channel0 b0, channel1 b0);
                    b = b0\<lparr> channel0 := leftChannel, channel1 := rightChannel \<rparr>;
                    source = length (nodes s);
                    startTime = max (scheduledUntil s) (now + 1 / 10);
                    node = \<lparr> buffer = Some b, startedAt = Some startTime,
                             stopped = False, isConnected = True \<rparr>;
                    s1 = s\<lparr> nodes := nodes s @ [node] \<rparr>;
                    s2 = s1\<lparr> scheduledSources := scheduledSources s1 @ [source] \<rparr>;
                    s3 = s2\<lparr> scheduledUntil := startTime + duration b \<rparr>
                in Return (s3\<lparr> currentTime := currentTime s3 + duration b \<rparr>)))"

text \<open>
  The \<open>onended\<close> callback of a source:
  \<open>idx = indexOf(source); if (idx > -1) splice(idx, 1)\<close>.
\<close>

definition onended :: "nat \<Rightarrow> WebGLAudioShader \<Rightarrow> WebGLAudioShader" where
  "onended source s = s\<lparr> scheduledSources := remove1 source (scheduledSources s) \<rparr>"

text \<open>The handler \<open>renderWorker.onmessage\<close> that \<open>init\<close> installs.\<close>

definition renderWorker_onmessage ::
  "seconds \<Rightarrow> reply \<Rightarrow> WebGLAudioShader \<Rightarrow> WebGLAudioShader result" where
  "renderWorker_onmessage now m s =
     (case m of
        Ready \<Rightarrow> Return (s\<lparr> workerReady := True \<rparr>)
      | MaxTextureSize n \<Rightarrow> Return (s\<lparr> maxTextureSize := n \<rparr>)
      | AudioData audioData \<Rightarrow> onAudioDataGenerated now audioData (s\<lparr> generating := False \<rparr>)
      | Error e \<Rightarrow>
          Return (s\<lparr> console := console s @ [WorkerErrorLogged e], generating := False \<rparr>))"

section \<open>Replacing the program\<close>

text \<open>
  \<open>setShader\<close> is asynchronous: it runs to its first \<open>await\<close> and then depends on
  timers. Each of its two promises is resolved by an interval callback \<open>checkReady\<close>
  that fires every 10 ms and does nothing unless \<open>workerReady\<close> is set. \<open>AwaitSwap\<close> is
  the wait of the branch without a canvas (it remembers \<open>wasRunning\<close>), \<open>AwaitReady\<close>
  the wait at the end of the function.
\<close>

datatype wait = AwaitSwap bool | AwaitReady

datatype promise = Pending wait | Resolved | Rejected jsError

text \<open>
  \<open>setShader(shaderCode, offscreen)\<close> up to its first \<open>await\<close>; \<open>offscreen\<close> says
  whether a canvas was passed. Without a worker, \<open>this.renderWorker.postMessage\<close>
  throws and the promise of the call is rejected.
\<close>

definition setShader :: "string \<Rightarrow> bool \<Rightarrow> WebGLAudioShader \<Rightarrow> promise \<times> WebGLAudioShader" where
  "setShader code offscreen s =
     (let s1 = s\<lparr> shaderCode := Some code, workerReady := False \<rparr> in
      if offscreen then
        (case renderWorker s1 of
           None \<Rightarrow> (Rejected TypeError, s1)
         | Some w \<Rightarrow>
             (Pending AwaitReady, s1\<lparr> renderWorker := Some (postMessage (Init code) w) \<rparr>))
      else
        let wasRunning = isRunning s1;
            s2 = (if wasRunning then stop s1 else s1)
        in case renderWorker s2 of
             None \<Rightarrow> (Rejected TypeError, s2)
           | Some w \<Rightarrow>
               (Pending (AwaitSwap wasRunning),
                s2\<lparr> renderWorker := Some (postMessage (UpdateShader code) w) \<rparr>))"

text \<open>
  One firing of the interval callback of a pending wait, with the code that follows the
  \<open>await\<close> when it resolves: after the first wait, \<open>if (wasRunning) this.start()\<close> and
  the second wait; after the second, the end of \<open>setShader\<close>.
\<close>

definition checkReady :: "seconds \<Rightarrow> wait \<Rightarrow> WebGLAudioShader \<Rightarrow> promise \<times> WebGLAudioShader" where
  "checkReady now w s =
     (if \<not> workerReady s then (Pending w, s)
      else
        case w of
          AwaitReady \<Rightarrow> (Resolved, s)
        | AwaitSwap wasRunning \<Rightarrow>
            if wasRunning then
              (case start now s of
                 Return s' \<Rightarrow> (Pending AwaitReady, s')
               | Throw e s' \<Rightarrow> (Rejected e, s'))
            else (Pending AwaitReady, s))"

text \<open>
  \<open>init(shaderCode)\<close> up to its \<open>await\<close>: a new context (whose sample rate the device
  chooses), a new worker, and \<open>setShader\<close> with the canvas when the code is a non-empty
  string. \<open>generationLoop()\<close> is first called when that promise resolves.
\<close>

definition init :: "rat \<Rightarrow> string \<Rightarrow> WebGLAudioShader \<Rightarrow> promise \<times> WebGLAudioShader" where
  "init rate code s =
     (let s1 = s\<lparr> audioContext := Some (new_AudioContext rate) \<rparr>;
          s2 = s1\<lparr> renderWorker := Some new_Worker \<rparr>
      in if code \<noteq> [] then setShader code True s2 else (Resolved, s2))"

section \<open>The render worker\<close>

text \<open>
  The worker's script talks to a WebGL2 driver. What the driver answers is not decided by
  the script, so it is a parameter \<open>g\<close> of every function here: whether a context and
  the float extension exist, the maximum texture size, whether a shader compiles and a
  program links (with the logs), and whether a framebuffer whose texture has a given width
  is complete. The driver also runs the shaders, so the float arithmetic of the fragment
  shader is the driver's: the conversion of a number to a float (\<open>toFloat\<close>, for the
  uniforms set by \<open>uniform1f\<close>, the literals and \<open>gl_FragCoord.x\<close>), subtraction,
  division and addition, what \<open>mainSound\<close> of a program text computes, and the value a
  component holds once stored in the \<open>RGBA16F\<close> texture and read back as a float
  (\<open>toHalf\<close>).
\<close>

datatype shaderSource = VertexShaderSource | FragmentShaderSource string

record GL =
  webgl2 :: bool
  colorBufferFloat :: bool
  maxTextureSizeParameter :: nat
  compileStatus :: "shaderSource \<Rightarrow> bool"
  shaderInfoLog :: "shaderSource \<Rightarrow> string"
  linkStatus :: "string \<Rightarrow> bool"
  programInfoLog :: "string \<Rightarrow> string"
  framebufferComplete :: "nat \<Rightarrow> bool"
  toFloat :: "rat \<Rightarrow> float32"
  fsub :: "float32 \<Rightarrow> float32 \<Rightarrow> float32"
  fdiv :: "float32 \<Rightarrow> float32 \<Rightarrow> float32"
  fadd :: "float32 \<Rightarrow> float32 \<Rightarrow> float32"
  mainSound :: "string \<Rightarrow> float32 \<Rightarrow> float32 \<times> float32"
  toHalf :: "float32 \<Rightarrow> float32"

text \<open>
  The variables of the script: \<open>gl\<close> (whether it holds a context), \<open>program\<close> (the
  text the program object was built from), \<open>texture\<close> (the width of the texture made
  last, which is the one attached to \<open>framebuffer\<close>; \<open>None\<close> while both are
  \<open>null\<close>), the worker's own \<open>maxTextureSize\<close> and \<open>currentWidth\<close>. Three more
  components are state of the context that later draws depend on: whether the program
  object is linked (\<open>programLinked\<close>), the program that \<open>gl.useProgram\<close> made current
  (\<open>currentProgram\<close>), and whether the \<open>position\<close> attribute array was enabled on the
  quad's vertex buffer (\<open>vertexArray\<close>). The uniform locations are those of the current
  program and are left out.
\<close>

record workerScope =
  gl :: bool
  program :: "string option"
  programLinked :: bool
  currentProgram :: "string option"
  vertexArray :: bool
  texture :: "nat option"
  maxTextureSize_w :: nat
  currentWidth :: nat

definition workerScript :: workerScope where
  "workerScript = \<lparr> gl = False, program = None, programLinked = False,
                     currentProgram = None, vertexArray = False, texture = None,
                     maxTextureSize_w = 4096, currentWidth = 0 \<rparr>"

text \<open>\<open>compileShader\<close>: the shader or \<open>null\<close>, and the error it posts.\<close>

definition compileShader :: "GL \<Rightarrow> shaderSource \<Rightarrow> bool \<times> reply list" where
  "compileShader g source =
     (if \<not> compileStatus g source then (False, [Error (ShaderError (shaderInfoLog g source))])
      else (True, []))"

text \<open>
  \<open>updateShader\<close>. When a shader does not compile it returns before \<open>program\<close> is
  touched. Otherwise the old program object is deleted (it stays current until another is
  used) and a new one is made and linked; only a linked one is made current.
\<close>

definition updateShader :: "GL \<Rightarrow> string \<Rightarrow> workerScope \<Rightarrow> workerScope \<times> reply list" where
  "updateShader g code w =
     (let (vertexShader, posted1) = compileShader g VertexShaderSource;
          (fragmentShader, posted2) = compileShader g (FragmentShaderSource code)
      in if \<not> vertexShader \<or> \<not> fragmentShader then (w, posted1 @ posted2)
         else
           let w1 = w\<lparr> program := Some code, programLinked := linkStatus g code \<rparr> in
           if \<not> linkStatus g code then
             (w1, posted1 @ posted2 @ [Error (ShaderLinkError (programInfoLog g code))])
           else (w1\<lparr> currentProgram := Some code \<rparr>, posted1 @ posted2 @ [Ready]))"

text \<open>
  The end of \<open>setupWebGL\<close>, after \<open>updateShader\<close>: the quad's vertex buffer is made and
  \<open>gl.getAttribLocation(program, 'position')\<close> is asked. With \<open>program\<close> still
  \<open>null\<close> (the first compile failed) that call throws a \<open>TypeError\<close> nobody catches, so
  \<open>enableVertexAttribArray\<close> and \<open>vertexAttribPointer\<close> are never reached. For a
  program that is not linked the location is -1, which both calls refuse. Only for a
  linked program is the attribute array enabled. Nothing else in the script enables it.
\<close>

definition setupVertexArray :: "workerScope \<Rightarrow> workerScope" where
  "setupVertexArray w =
     (case program w of
        None \<Rightarrow> w
      | Some code \<Rightarrow> if programLinked w then w\<lparr> vertexArray := True \<rparr> else w)"

definition setupWebGL :: "GL \<Rightarrow> string \<Rightarrow> workerScope \<Rightarrow> workerScope \<times> reply list" where
  "setupWebGL g code w =
     (if \<not> webgl2 g then (w\<lparr> gl := False \<rparr>, [Error WebGL2NotSupported])
      else
        let w1 = w\<lparr> gl := True \<rparr> in
        if \<not> colorBufferFloat g then (w1, [Error FloatTexturesNotSupported])
        else
          let w2 = w1\<lparr> maxTextureSize_w := maxTextureSizeParameter g \<rparr>;
              (w3, posted3) = updateShader g code w2
          in (setupVertexArray w3, MaxTextureSize (maxTextureSize_w w2) # posted3))"

text \<open>
  \<open>main\<close> of the fragment shader for the pixel of column \<open>x\<close>, whose
  \<open>gl_FragCoord.x\<close> is \<open>x + 0.5\<close>:
  \<open>time = (gl_FragCoord.x - 0.5) / iSampleRate + iTimeOffset\<close> and
  \<open>fragColor = vec4(mainSound(time), 0.0, 1.0)\<close>, in the driver's arithmetic.
\<close>

definition fragmentTime :: "GL \<Rightarrow> float32 \<Rightarrow> float32 \<Rightarrow> nat \<Rightarrow> float32" where
  "fragmentTime g iSampleRate iTimeOffset x =
     fadd g (fdiv g (fsub g (toFloat g (of_nat x + 1 / 2)) (toFloat g (1 / 2))) iSampleRate)
       iTimeOffset"

definition fragmentMain :: "GL \<Rightarrow> string \<Rightarrow> float32 \<Rightarrow> float32 \<Rightarrow> nat \<Rightarrow> float32 list" where
  "fragmentMain g code iSampleRate iTimeOffset x =
     (let time = fragmentTime g iSampleRate iTimeOffset x;
          sound = mainSound g code time
      in [fst sound, snd sound, toFloat g 0, toFloat g 1])"

text \<open>
  How many fragments \<open>drawArrays\<close> shades over a viewport of the given width and one
  row: the columns of the viewport that lie in the texture of the bound framebuffer, when
  that framebuffer is complete, a program is current and the attribute array is enabled;
  none otherwise (an incomplete framebuffer refuses the draw, and without the attribute
  array the four vertices coincide).
\<close>

definition evaluatedWidth :: "GL \<Rightarrow> workerScope \<Rightarrow> nat \<Rightarrow> nat" where
  "evaluatedWidth g w width =
     (case texture w of
        None \<Rightarrow> 0
      | Some textureWidth \<Rightarrow>
          if framebufferComplete g textureWidth \<and> currentProgram w \<noteq> None \<and> vertexArray w
          then min width textureWidth else 0)"

text \<open>
  The four floats that \<open>readPixels\<close> stores for column \<open>x\<close>: the shaded fragment as
  the half-float texture holds it, or the zeros of the fresh array where nothing was
  shaded (there either the read is refused, or the column lies outside the texture, or
  the texture is as it was made).
\<close>

definition pixel :: "GL \<Rightarrow> workerScope \<Rightarrow> rat \<Rightarrow> seconds \<Rightarrow> nat \<Rightarrow> nat \<Rightarrow> float32 list" where
  "pixel g w rate timeOffset width x =
     (case currentProgram w of
        None \<Rightarrow> replicate 4 (Finite 0)
      | Some code \<Rightarrow>
          if x < evaluatedWidth g w width
          then map (toHalf g) (fragmentMain g code (toFloat g rate) (toFloat g timeOffset) x)
          else replicate 4 (Finite 0))"

text \<open>
  \<open>uniform1f\<close> of the rate and the offset, \<open>drawArrays\<close> over a viewport of the given
  width and one row, then \<open>readPixels\<close> of that many pixels into a zero-filled array of
  four floats a pixel.
\<close>

definition readPixels :: "GL \<Rightarrow> workerScope \<Rightarrow> rat \<Rightarrow> seconds \<Rightarrow> nat \<Rightarrow> float32 list" where
  "readPixels g w rate timeOffset width =
     concat (map (pixel g w rate timeOffset width) [0..<width])"

text \<open>
  The loop at the end of \<open>generateAudio\<close>:
  \<open>for (let i = 0; i < clampedSamples; i++) { audioData[i * 2] = pixelData[i * 4];
  audioData[i * 2 + 1] = pixelData[i * 4 + 1] }\<close>.
\<close>

function copyStereo :: "nat \<Rightarrow> nat \<Rightarrow> float32 list \<Rightarrow> float32 list \<Rightarrow> float32 list" where
  "copyStereo i clampedSamples pixelData audioData =
     (if i < clampedSamples then
        copyStereo (i + 1) clampedSamples pixelData
          (audioData[i * 2 := pixelData ! (i * 4), i * 2 + 1 := pixelData ! (i * 4 + 1)])
      else audioData)"
  by pat_completeness auto
termination
  by (relation "measure (\<lambda>(i, clampedSamples, pixelData, audioData). clampedSamples - i)") auto

declare copyStereo.simps [simp del]

text \<open>
  The part of \<open>generateAudio\<close> after the framebuffer is bound: the uniforms, the
  viewport of \<open>clampedSamples\<close> by 1, the draw, the read-back and the copy into a
  zero-filled array of two floats a sample.
\<close>

definition drawAndCopy :: "GL \<Rightarrow> rat \<Rightarrow> seconds \<Rightarrow> nat \<Rightarrow> workerScope \<Rightarrow> float32 list" where
  "drawAndCopy g rate timeOffset clampedSamples w =
     (let pixelData = readPixels g w rate timeOffset clampedSamples
      in copyStereo 0 clampedSamples pixelData (replicate (clampedSamples * 2) (Finite 0)))"

text \<open>
  \<open>generateAudio\<close>: the variables after the call, what it posted itself, and the array
  it returns (\<open>None\<close> for \<open>null\<close>). When the width changes, the texture and the
  framebuffer are replaced by new ones of the clamped width before the status of the new
  framebuffer is checked, and \<open>currentWidth\<close> is assigned only after the check passed.
  When the width is \<open>currentWidth\<close> the framebuffer in place is bound without a check.
\<close>

definition generateAudio ::
  "GL \<Rightarrow> nat \<Rightarrow> rat \<Rightarrow> seconds \<Rightarrow> workerScope \<Rightarrow>
     workerScope \<times> reply list \<times> float32 list option" where
  "generateAudio g numSamples rate timeOffset w =
     (let clampedSamples = min numSamples (maxTextureSize_w w) in
      if currentWidth w \<noteq> clampedSamples then
        let w1 = w\<lparr> texture := Some clampedSamples \<rparr> in
        if \<not> framebufferComplete g clampedSamples then (w1, [Error FramebufferError], None)
        else
          let w2 = w1\<lparr> currentWidth := clampedSamples \<rparr>
          in (w2, [], Some (drawAndCopy g rate timeOffset clampedSamples w2))
      else (w, [], Some (drawAndCopy g rate timeOffset clampedSamples w)))"

text \<open>
  \<open>self.onmessage\<close>. Before a context exists, \<open>render\<close> and \<open>updateShader\<close> fail on
  \<open>gl\<close> being \<open>null\<close>: an uncaught exception in the worker, and nothing is posted.
\<close>

definition self_onmessage :: "GL \<Rightarrow> request \<Rightarrow> workerScope \<Rightarrow> workerScope \<times> reply list" where
  "self_onmessage g m w =
     (case m of
        Init code \<Rightarrow> setupWebGL g code w
      | Render numSamples rate timeOffset \<Rightarrow>
          if \<not> gl w then (w, [])
          else
            let (w1, posted1, audioData) = generateAudio g numSamples rate timeOffset w in
            (case audioData of
               Some d \<Rightarrow> (w1, posted1 @ [AudioData d])
             | None \<Rightarrow> (w1, posted1 @ [Error GenerationFailed]))
      | UpdateShader code \<Rightarrow>
          if \<not> gl w then (w, []) else updateShader g code w)"

section \<open>The page: both threads and the messages between them\<close>

text \<open>
  The instance, the worker's variables, the replies posted by the worker and not yet
  dispatched on the page, the pending asynchronous calls (each with whether it is
  \<open>init\<close>, which goes on to \<open>generationLoop()\<close>), and whether an animation frame is
  requested for the loop.
\<close>

record page =
  shader :: WebGLAudioShader
  scope :: workerScope
  inbox :: "reply list"
  calls :: "(promise \<times> bool) list"
  looping :: bool

definition newPage :: page where
  "newPage = \<lparr> shader = constructor, scope = workerScript, inbox = [], calls = [],
               looping = False \<rparr>"

text \<open>
  What can happen next: a call of the public interface, an animation frame, a turn of the
  worker (it takes its oldest request, in the driver state \<open>g\<close>), the dispatch of the
  oldest reply, the interval timer of a pending call, the end of a source.
\<close>

datatype event =
    CallInit rat string seconds
  | CallStart seconds
  | CallStop
  | CallSetShader string
  | CallDispose
  | AnimationFrame seconds
  | WorkerTurn GL
  | MessageEvent seconds
  | IntervalFires nat seconds
  | SourceEnded nat

text \<open>
  A call of \<open>generationLoop()\<close> with its \<open>requestAnimationFrame\<close>, which an exception
  skips.
\<close>

definition runLoop :: "seconds \<Rightarrow> page \<Rightarrow> page" where
  "runLoop now p =
     (case generationLoop now (shader p) of
        Return s \<Rightarrow> p\<lparr> shader := s, looping := True \<rparr>
      | Throw e s \<Rightarrow> p\<lparr> shader := s, looping := False \<rparr>)"

definition workerTurn :: "GL \<Rightarrow> page \<Rightarrow> page" where
  "workerTurn g p =
     (case renderWorker (shader p) of
        None \<Rightarrow> p
      | Some w \<Rightarrow>
          if terminated w then p
          else
            (case posted w of
               [] \<Rightarrow> p
             | m # ms \<Rightarrow>
                 let (sc, replies) = self_onmessage g m (scope p) in
                 p\<lparr> shader := (shader p)\<lparr> renderWorker := Some (w\<lparr> posted := ms \<rparr>) \<rparr>,
                    scope := sc,
                    inbox := inbox p @ replies \<rparr>))"

definition intervalFires :: "nat \<Rightarrow> seconds \<Rightarrow> page \<Rightarrow> page" where
  "intervalFires k now p =
     (if k < length (calls p) then
        (case calls p ! k of
           (Pending w, isInit) \<Rightarrow>
             let (pr, s) = checkReady now w (shader p);
                 p1 = p\<lparr> shader := s, calls := (calls p)[k := (pr, isInit)] \<rparr>
             in if pr = Resolved \<and> isInit then runLoop now p1 else p1
         | _ \<Rightarrow> p)
      else p)"

text \<open>
  One step of the page. A second \<open>init\<close> would create a second worker beside the
  first; the page has room for one, so \<open>CallInit\<close> is taken only while the instance has
  no worker.
\<close>

fun step :: "event \<Rightarrow> page \<Rightarrow> page" where
  "step (CallInit rate code now) p =
     (if renderWorker (shader p) \<noteq> None then p
      else
        let (pr, s) = init rate code (shader p);
            p1 = p\<lparr> shader := s, calls := calls p @ [(pr, True)] \<rparr>
        in if pr = Resolved then runLoop now p1 else p1)"
| "step (CallStart now) p = p\<lparr> shader := stateOf (start now (shader p)) \<rparr>"
| "step CallStop p = p\<lparr> shader := stop (shader p) \<rparr>"
| "step (CallSetShader code) p =
     (let (pr, s) = setShader code False (shader p)
      in p\<lparr> shader := s, calls := calls p @ [(pr, False)] \<rparr>)"
| "step CallDispose p = p\<lparr> shader := dispose (shader p) \<rparr>"
| "step (AnimationFrame now) p = (if looping p then runLoop now p else p)"
| "step (WorkerTurn g) p = workerTurn g p"
| "step (MessageEvent now) p =
     (case inbox p of
        [] \<Rightarrow> p
      | m # ms \<Rightarrow> p\<lparr> shader := stateOf (renderWorker_onmessage now m (shader p)), inbox := ms \<rparr>)"
| "step (IntervalFires k now) p = intervalFires k now p"
| "step (SourceEnded source) p = p\<lparr> shader := onended source (shader p) \<rparr>"

definition run :: "event list \<Rightarrow> page \<Rightarrow> page" where
  "run es p = fold step es p"

text \<open>
  The render requests in flight as far as the page's own record goes: those posted to the
  worker that the worker has not yet taken.
\<close>

definition rendersWaiting :: "page \<Rightarrow> nat" where
  "rendersWaiting p =
     (case renderWorker (shader p) of
        None \<Rightarrow> 0
      | Some w \<Rightarrow> length (filter isRender (posted w)))"

section \<open>Notions used to state the properties\<close>

text \<open>
  Every tracked source is a node that exists and has been started. The constructor
  establishes this and every operation keeps it (\<open>tracked_run\<close> below).
\<close>

definition tracked :: "WebGLAudioShader \<Rightarrow> bool" where
  "tracked s =
     list_all (\<lambda>i. i < length (nodes s) \<and> startedAt (nodes s ! i) \<noteq> None) (scheduledSources s)"

text \<open>
  The buffer that \<open>onAudioDataGenerated\<close> builds from a chunk, in closed form;
  \<open>fillChannels_zero\<close> below shows that the loop computes it.
\<close>

definition chunkBuffer :: "float32 list \<Rightarrow> rat \<Rightarrow> AudioBuffer" where
  "chunkBuffer audioData rate =
     \<lparr> channel0 = map (\<lambda>k. audioData ! (k * 2)) [0..<length audioData div 2],
       channel1 = map (\<lambda>k. audioData ! (k * 2 + 1)) [0..<length audioData div 2],
       bufferRate = rate \<rparr>"

subsection \<open>A concrete page\<close>

text \<open>
  Two program texts, a driver that compiles every fragment shader but \<open>broken\<close>, and the
  same driver once its framebuffers are no longer complete (a lost context). The driver
  computes exactly on numbers, \<open>mainSound\<close> of its programs is \<open>(time, 0 - time)\<close>,
  and its half floats hold every value as it is.
\<close>

fun exact :: "(rat \<Rightarrow> rat \<Rightarrow> rat) \<Rightarrow> float32 \<Rightarrow> float32 \<Rightarrow> float32" where
  "exact f (Finite a) (Finite b) = Finite (f a b)"
| "exact f a b = NaN"

definition tone :: string where
  "tone = ''vec2 mainSound(float t){return vec2(t,-t);}''"

definition broken :: string where
  "broken = ''vec2 mainSound(''"

definition driver :: GL where
  "driver = \<lparr> webgl2 = True, colorBufferFloat = True, maxTextureSizeParameter = 16384,
              compileStatus = (\<lambda>source. source \<noteq> FragmentShaderSource broken),
              shaderInfoLog = (\<lambda>source. ''syntax error''),
              linkStatus = (\<lambda>code. True),
              programInfoLog = (\<lambda>code. []),
              framebufferComplete = (\<lambda>width. True),
              toFloat = Finite,
              fsub = exact (\<lambda>a b. a - b),
              fdiv = exact (\<lambda>a b. a / b),
              fadd = exact (\<lambda>a b. a + b),
              mainSound = (\<lambda>code time. (time, exact (\<lambda>a b. a - b) (Finite 0) time)),
              toHalf = (\<lambda>v. v) \<rparr>"

definition lostDriver :: GL where
  "lostDriver = driver\<lparr> framebufferComplete := (\<lambda>width. False) \<rparr>"

text \<open>
  \<open>init\<close> at 48 kHz, the worker's set-up, its two replies, the timer that resolves
  \<open>init\<close>, and \<open>start()\<close>.
\<close>

definition playing :: "event list" where
  "playing = [CallInit 48000 tone 0, WorkerTurn driver, MessageEvent 0, MessageEvent 0,
              IntervalFires 0 0, CallStart 0]"

definition playingShader :: WebGLAudioShader where
  "playingShader = shader (run playing newPage)"

text \<open>The playing instance after a chunk of one frame arrived at 0.01 s.\<close>

definition scheduledShader :: WebGLAudioShader where
  "scheduledShader =
     stateOf (onAudioDataGenerated (1 / 100) [Finite (1 / 2), Finite (1 / 4)] playingShader)"

text \<open>
  The first render request meets the lost context. Its two error messages are dispatched
  one at a time, with an animation frame after each.
\<close>

definition twoErrors :: "event list" where
  "twoErrors = playing @
     [AnimationFrame (1 / 100), WorkerTurn lostDriver, MessageEvent (2 / 100),
      AnimationFrame (3 / 100), MessageEvent (4 / 100), AnimationFrame (5 / 100)]"

text \<open>
  \<open>setShader(broken)\<close> on the playing instance: the worker reports the compile error,
  the page dispatches it, and the timer of the call fires three times.
\<close>

definition failedSwap :: "event list" where
  "failedSwap = playing @
     [CallSetShader broken, WorkerTurn driver, MessageEvent (1 / 100),
      IntervalFires 1 (2 / 100), IntervalFires 1 (3 / 100), IntervalFires 1 (4 / 100)]"

text \<open>
  The event list \<open>twoErrors\<close> without its last animation frame: both error messages of
  the failed request have been dispatched.
\<close>

definition flagCleared :: "event list" where
  "flagCleared = butlast twoErrors"

text \<open>
  The variables of a worker whose set-up went through on a driver that reported a maximum
  texture size of 2, before its first render request and after it has served one.
\<close>

definition narrowScope :: workerScope where
  "narrowScope = \<lparr> gl = True, program = Some tone, programLinked = True,
                    currentProgram = Some tone, vertexArray = True, texture = None,
                    maxTextureSize_w = 2, currentWidth = 0 \<rparr>"

definition servedScope :: workerScope where
  "servedScope = fst (self_onmessage driver (Render 8192 48000 0) narrowScope)"

text \<open>
  \<open>init(broken)\<close> on a driver whose maximum texture size is 2: the compile error leaves
  \<open>program\<close> \<open>null\<close> at the end of the set-up. Then \<open>setShader(tone)\<close>, which
  compiles and links, the timers of both calls, \<open>start()\<close>, a tick and the worker's
  turn on the render request.
\<close>

definition smallDriver :: GL where
  "smallDriver = driver\<lparr> maxTextureSizeParameter := 2 \<rparr>"

definition repaired :: "event list" where
  "repaired = [CallInit 48000 broken 0, WorkerTurn smallDriver, MessageEvent 0, MessageEvent 0,
               CallSetShader tone, WorkerTurn smallDriver, MessageEvent 0,
               IntervalFires 0 0, IntervalFires 1 0, IntervalFires 1 0, CallStart 0,
               AnimationFrame (1 / 100), WorkerTurn smallDriver]"

section \<open>Lemmas about the loops\<close>

lemma fillChannels_eq:
  "length l = n \<Longrightarrow> length r = n \<Longrightarrow> i \<le> n \<Longrightarrow>
   fillChannels i n a (l, r) =
     (take i l @ map (\<lambda>k. a ! (k * 2)) [i..<n], take i r @ map (\<lambda>k. a ! (k * 2 + 1)) [i..<n])"
proof (induction i n a "(l, r)" arbitrary: l r rule: fillChannels.induct)
  case (1 i n a l r)
  show ?case
  proof (cases "i < n")
    case True
    have "take (i + 1) (l[i := a ! (i * 2)]) = take i l @ [a ! (i * 2)]"
      using True 1(2) by (simp add: take_Suc_conv_app_nth)
    moreover have "take (i + 1) (r[i := a ! (i * 2 + 1)]) = take i r @ [a ! (i * 2 + 1)]"
      using True 1(3) by (simp add: take_Suc_conv_app_nth)
    moreover have "[i..<n] = i # [i + 1..<n]"
      using True by (simp add: upt_conv_Cons)
    ultimately show ?thesis
      using True 1 by (simp add: fillChannels.simps[of i])
  next
    case False
    then show ?thesis using 1(2-4) by (simp add: fillChannels.simps[of n])
  qed
qed

lemma fillChannels_zero:
  "fillChannels 0 n a (replicate n (Finite 0), replicate n (Finite 0)) =
     (map (\<lambda>k. a ! (k * 2)) [0..<n], map (\<lambda>k. a ! (k * 2 + 1)) [0..<n])"
  by (simp add: fillChannels_eq)

lemma length_concat_const:
  "(\<And>k. length (f k) = c) \<Longrightarrow> length (concat (map f [0..<n])) = n * c"
  by (induction n) simp_all

lemma nth_concat_const:
  assumes "\<And>k. length (f k) = c" "k < n" "j < c"
  shows "concat (map f [0..<n]) ! (k * c + j) = f k ! j"
  using assms(2)
proof (induction n)
  case 0
  then show ?case by simp
next
  case (Suc n)
  have len: "length (concat (map f [0..<n])) = n * c"
    using assms(1) by (rule length_concat_const)
  show ?case
  proof (cases "k < n")
    case True
    have "k * c + j < Suc k * c" using assms(3) by simp
    also have "Suc k * c \<le> n * c" using True by (intro mult_le_mono1) simp
    finally show ?thesis using Suc.IH True len by (simp add: nth_append)
  next
    case False
    then have "k = n" using Suc.prems by simp
    then show ?thesis using len by (simp add: nth_append)
  qed
qed

lemma copyStereo_eq:
  "length a = n * 2 \<Longrightarrow> i \<le> n \<Longrightarrow>
   copyStereo i n p a = take (i * 2) a @ concat (map (\<lambda>k. [p ! (k * 4), p ! (k * 4 + 1)]) [i..<n])"
proof (induction i n p a rule: copyStereo.induct)
  case (1 i n p a)
  show ?case
  proof (cases "i < n")
    case True
    let ?a = "a[i * 2 := p ! (i * 4), i * 2 + 1 := p ! (i * 4 + 1)]"
    have l: "i * 2 + 1 < length a" using True 1(2) by simp
    have "take ((i + 1) * 2) ?a = take (i * 2) a @ [p ! (i * 4), p ! (i * 4 + 1)]"
    proof -
      have "take ((i + 1) * 2) ?a = take (Suc (Suc (i * 2))) ?a" by simp
      also have "\<dots> = take (Suc (i * 2)) ?a @ [?a ! Suc (i * 2)]"
        using l by (simp add: take_Suc_conv_app_nth)
      also have "\<dots> = take (i * 2) ?a @ [?a ! (i * 2), ?a ! Suc (i * 2)]"
        using l by (simp add: take_Suc_conv_app_nth)
      finally show ?thesis using l by simp
    qed
    moreover have "[i..<n] = i # [i + 1..<n]"
      using True by (simp add: upt_conv_Cons)
    ultimately show ?thesis
      using True 1 by (simp add: copyStereo.simps[of i])
  next
    case False
    then show ?thesis using 1(2,3) by (simp add: copyStereo.simps[of n])
  qed
qed

lemma copyStereo_zero:
  "copyStereo 0 n p (replicate (n * 2) (Finite 0)) =
     concat (map (\<lambda>k. [p ! (k * 4), p ! (k * 4 + 1)]) [0..<n])"
  by (simp add: copyStereo_eq)

lemma length_copyStereo_zero:
  "length (copyStereo 0 n p (replicate (n * 2) (Finite 0))) = n * 2"
  unfolding copyStereo_zero by (rule length_concat_const) simp

lemma copyStereo_zero_nth:
  assumes "k < n"
  shows "copyStereo 0 n p (replicate (n * 2) (Finite 0)) ! (k * 2) = p ! (k * 4)"
    and "copyStereo 0 n p (replicate (n * 2) (Finite 0)) ! (k * 2 + 1) = p ! (k * 4 + 1)"
  using nth_concat_const[where f = "\<lambda>k. [p ! (k * 4), p ! (k * 4 + 1)]" and c = 2 and k = k
      and n = n and j = 0]
    nth_concat_const[where f = "\<lambda>k. [p ! (k * 4), p ! (k * 4 + 1)]" and c = 2 and k = k
      and n = n and j = 1] assms
  by (simp_all add: copyStereo_zero)

section \<open>Lemmas about the worker\<close>

lemma length_pixel: "length (pixel g w rate t width x) = 4"
  by (simp add: pixel_def fragmentMain_def Let_def split: option.splits)

lemma length_readPixels: "length (readPixels g w rate t width) = width * 4"
  unfolding readPixels_def by (rule length_concat_const) (rule length_pixel)

lemma readPixels_nth:
  "k < width \<Longrightarrow> j < 4 \<Longrightarrow>
   readPixels g w rate t width ! (k * 4 + j) = pixel g w rate t width k ! j"
  unfolding readPixels_def by (rule nth_concat_const) (simp_all add: length_pixel)

text \<open>A shaded column holds the half floats of \<open>mainSound\<close>; any other holds zeros.\<close>

lemma pixel_shaded:
  assumes "currentProgram w = Some code" and "x < evaluatedWidth g w width"
  shows "pixel g w rate t width x ! 0 =
           toHalf g (fst (mainSound g code (fragmentTime g (toFloat g rate) (toFloat g t) x)))"
    and "pixel g w rate t width x ! 1 =
           toHalf g (snd (mainSound g code (fragmentTime g (toFloat g rate) (toFloat g t) x)))"
  using assms by (simp_all add: pixel_def fragmentMain_def Let_def)

lemma pixel_blank:
  assumes "\<not> x < evaluatedWidth g w width"
  shows "pixel g w rate t width x ! 0 = Finite 0" and "pixel g w rate t width x ! 1 = Finite 0"
  using assms by (simp_all add: pixel_def split: option.splits)

text \<open>What the draw, the read-back and the copy loop return together.\<close>

lemma drawAndCopy_eq:
  "drawAndCopy g rate t m w =
     concat (map (\<lambda>x. [pixel g w rate t m x ! 0, pixel g w rate t m x ! 1]) [0..<m])"
proof -
  have "[readPixels g w rate t m ! (x * 4), readPixels g w rate t m ! (x * 4 + 1)] =
      [pixel g w rate t m x ! 0, pixel g w rate t m x ! 1]" if "x \<in> set [0..<m]" for x
    using that readPixels_nth[of x m 0 g w rate t] readPixels_nth[of x m 1 g w rate t] by simp
  then have "map (\<lambda>x. [readPixels g w rate t m ! (x * 4), readPixels g w rate t m ! (x * 4 + 1)])
      [0..<m] = map (\<lambda>x. [pixel g w rate t m x ! 0, pixel g w rate t m x ! 1]) [0..<m]"
    by (intro map_cong refl)
  then show ?thesis
    by (simp only: drawAndCopy_def Let_def copyStereo_zero)
qed

lemma length_drawAndCopy: "length (drawAndCopy g rate t m w) = m * 2"
  by (simp add: drawAndCopy_def length_copyStereo_zero)

lemma drawAndCopy_nth:
  assumes "i < m"
  shows "drawAndCopy g rate t m w ! (i * 2) = readPixels g w rate t m ! (i * 4)"
    and "drawAndCopy g rate t m w ! (i * 2 + 1) = readPixels g w rate t m ! (i * 4 + 1)"
  unfolding drawAndCopy_def Let_def
  by (rule copyStereo_zero_nth(1)[OF assms], rule copyStereo_zero_nth(2)[OF assms])

lemma drawAndCopy_pixel:
  assumes "i < m"
  shows "drawAndCopy g rate t m w ! (i * 2) = pixel g w rate t m i ! 0"
    and "drawAndCopy g rate t m w ! (i * 2 + 1) = pixel g w rate t m i ! 1"
proof -
  have "readPixels g w rate t m ! (i * 4) = pixel g w rate t m i ! 0"
    using readPixels_nth[of i m 0 g w rate t] assms by simp
  then show "drawAndCopy g rate t m w ! (i * 2) = pixel g w rate t m i ! 0"
    by (simp only: drawAndCopy_nth(1)[OF assms])
  have "readPixels g w rate t m ! (i * 4 + 1) = pixel g w rate t m i ! 1"
    using readPixels_nth[of i m 1 g w rate t] assms by simp
  then show "drawAndCopy g rate t m w ! (i * 2 + 1) = pixel g w rate t m i ! 1"
    by (simp only: drawAndCopy_nth(2)[OF assms])
qed

text \<open>The three outcomes of \<open>generateAudio\<close>.\<close>

lemma generateAudio_fails:
  "currentWidth w \<noteq> min numSamples (maxTextureSize_w w) \<Longrightarrow>
   \<not> framebufferComplete g (min numSamples (maxTextureSize_w w)) \<Longrightarrow>
   generateAudio g numSamples rate t w =
     (w\<lparr> texture := Some (min numSamples (maxTextureSize_w w)) \<rparr>, [Error FramebufferError], None)"
  by (simp add: generateAudio_def Let_def)

lemma generateAudio_remade:
  "currentWidth w \<noteq> min numSamples (maxTextureSize_w w) \<Longrightarrow>
   framebufferComplete g (min numSamples (maxTextureSize_w w)) \<Longrightarrow>
   generateAudio g numSamples rate t w =
     (w\<lparr> texture := Some (min numSamples (maxTextureSize_w w)),
         currentWidth := min numSamples (maxTextureSize_w w) \<rparr>, [],
      Some (drawAndCopy g rate t (min numSamples (maxTextureSize_w w))
              (w\<lparr> texture := Some (min numSamples (maxTextureSize_w w)),
                  currentWidth := min numSamples (maxTextureSize_w w) \<rparr>)))"
  by (simp add: generateAudio_def Let_def)

lemma generateAudio_reused:
  "currentWidth w = min numSamples (maxTextureSize_w w) \<Longrightarrow>
   generateAudio g numSamples rate t w =
     (w, [], Some (drawAndCopy g rate t (min numSamples (maxTextureSize_w w)) w))"
  by (simp add: generateAudio_def Let_def)

lemma generateAudio_clamped:
  "generateAudio g numSamples rate t w =
     generateAudio g (min numSamples (maxTextureSize_w w)) rate t w"
  by (simp add: generateAudio_def)

section \<open>Lemmas about the playback scheduler and the lifecycle\<close>

lemma duration_chunkBuffer:
  "duration (chunkBuffer audioData rate) = of_nat (length audioData div 2) / rate"
  by (simp add: duration_def chunkBuffer_def)

lemma onAudioDataGenerated_running:
  assumes "isRunning s" "audioContext s = Some c" "2 \<le> length audioData"
  shows "onAudioDataGenerated now audioData s =
     Return (s\<lparr> nodes := nodes s @
                   [\<lparr> buffer = Some (chunkBuffer audioData (sampleRate c)),
                      startedAt = Some (max (scheduledUntil s) (now + 1 / 10)),
                      stopped = False, isConnected = True \<rparr>],
                scheduledSources := scheduledSources s @ [length (nodes s)],
                scheduledUntil := max (scheduledUntil s) (now + 1 / 10)
                                    + duration (chunkBuffer audioData (sampleRate c)),
                currentTime := currentTime s + duration (chunkBuffer audioData (sampleRate c)) \<rparr>)"
proof -
  have "length audioData div 2 \<noteq> 0" using assms(3) by simp
  then show ?thesis
    using assms(1,2)
    by (simp add: onAudioDataGenerated_def createBuffer_def fillChannels_zero chunkBuffer_def
          Let_def)
qed

lemma onAudioDataGenerated_throws:
  assumes "isRunning s" "length audioData < 2 \<or> audioContext s = None"
  shows "\<not> returned (onAudioDataGenerated now audioData s)"
  using assms
  by (auto simp: onAudioDataGenerated_def createBuffer_def Let_def split: option.splits)

lemma length_forEachSource: "length (forEachSource is ns) = length ns"
  by (induction "is" arbitrary: ns) auto

lemma haltSource_idem: "haltSource (haltSource n) = haltSource n"
  by (simp add: haltSource_def)

lemma forEachSource_nth:
  "i < length ns \<Longrightarrow>
   forEachSource is ns ! i = (if i \<in> set is then haltSource (ns ! i) else ns ! i)"
proof (induction "is" arbitrary: ns)
  case Nil
  then show ?case by simp
next
  case (Cons j js)
  then show ?case
    by (cases "i = j") (auto simp: haltSource_idem nth_list_update)
qed

lemma stop_halts:
  assumes "tracked s" "i \<in> set (scheduledSources s)"
  shows "stopped (nodes (stop s) ! i) \<and> \<not> isConnected (nodes (stop s) ! i)"
proof -
  from assms have i: "i < length (nodes s)" "startedAt (nodes s ! i) \<noteq> None"
    by (auto simp: tracked_def list_all_iff)
  then show ?thesis
    using assms(2) by (auto simp: stop_def forEachSource_nth haltSource_def)
qed

lemma stop_fields:
  "isRunning (stop s) = False" "scheduledSources (stop s) = []"
  "currentTime (stop s) = 0" "scheduledUntil (stop s) = 0"
  "audioContext (stop s) = audioContext s" "renderWorker (stop s) = renderWorker s"
  "workerReady (stop s) = workerReady s" "console (stop s) = console s"
  "length (nodes (stop s)) = length (nodes s)"
  by (simp_all add: stop_def length_forEachSource)

lemma start_after_stop:
  assumes "audioContext s = Some c"
  shows "\<exists>s'. start now (stop s) = Return s' \<and> isRunning s' \<and> currentTime s' = 0 \<and>
           scheduledUntil s' = now \<and> scheduledSources s' = []"
  using assms by (simp add: start_def stop_fields Let_def split: prod.splits)

section \<open>Two invariants of the page\<close>

text \<open>Tracked sources exist and have been started.\<close>

lemma tracked_stop: "tracked (stop s)"
  by (simp add: tracked_def stop_def)

lemma tracked_start: "tracked s \<Longrightarrow> tracked (stateOf (start now s))"
  by (auto simp: start_def tracked_def Let_def split: option.splits prod.splits)

lemma tracked_dispose: "tracked (dispose s)"
  by (auto simp: dispose_def tracked_def stop_def Let_def split: option.splits prod.splits)

lemma tracked_generationLoop: "tracked s \<Longrightarrow> tracked (stateOf (generationLoop now s))"
  by (auto simp: generationLoop_def tracked_def Let_def split: option.splits)

lemma tracked_onAudioDataGenerated:
  "tracked s \<Longrightarrow> tracked (stateOf (onAudioDataGenerated now audioData s))"
  by (auto simp: onAudioDataGenerated_def tracked_def Let_def list_all_iff nth_append
           split: option.splits prod.splits)

lemma tracked_onmessage:
  assumes "tracked s"
  shows "tracked (stateOf (renderWorker_onmessage now m s))"
proof (cases m)
  case (AudioData d)
  from assms have "tracked (s\<lparr> generating := False \<rparr>)" by (simp add: tracked_def)
  then show ?thesis using AudioData
    by (simp add: renderWorker_onmessage_def tracked_onAudioDataGenerated)
qed (use assms in \<open>auto simp: renderWorker_onmessage_def tracked_def\<close>)

lemma tracked_onended: "tracked s \<Longrightarrow> tracked (onended source s)"
  by (auto simp: onended_def tracked_def list_all_iff dest: notin_set_remove1)

lemma tracked_setShader: "tracked s \<Longrightarrow> tracked (snd (setShader code offscreen s))"
  by (auto simp: setShader_def tracked_def stop_def Let_def split: option.splits)

lemma tracked_init:
  assumes "tracked s"
  shows "tracked (snd (init rate code s))"
proof -
  from assms
  have "tracked (s\<lparr> audioContext := Some (new_AudioContext rate), renderWorker := Some new_Worker \<rparr>)"
    by (simp add: tracked_def)
  then show ?thesis
    by (auto simp: init_def Let_def tracked_setShader)
qed

lemma tracked_checkReady: "tracked s \<Longrightarrow> tracked (snd (checkReady now w s))"
  using tracked_start[of s now]
  by (auto simp: checkReady_def split: wait.splits result.splits)

lemma tracked_runLoop: "tracked (shader p) \<Longrightarrow> tracked (shader (runLoop now p))"
  using tracked_generationLoop[of "shader p" now]
  by (auto simp: runLoop_def split: result.splits)

lemma tracked_workerTurn: "tracked (shader p) \<Longrightarrow> tracked (shader (workerTurn g p))"
  by (auto simp: workerTurn_def tracked_def split: option.splits list.splits prod.splits)

lemma tracked_intervalFires:
  assumes t: "tracked (shader p)"
  shows "tracked (shader (intervalFires k now p))"
proof (cases "k < length (calls p)")
  case False
  then show ?thesis using t by (simp add: intervalFires_def)
next
  case True
  obtain pr isInit where c: "calls p ! k = (pr, isInit)" by (cases "calls p ! k")
  show ?thesis
  proof (cases pr)
    case (Pending w)
    obtain pr' s' where r: "checkReady now w (shader p) = (pr', s')"
      by (cases "checkReady now w (shader p)")
    have "tracked s'" using tracked_checkReady[OF t, of now w] r by simp
    then show ?thesis
      using True c Pending r
      by (auto simp: intervalFires_def Let_def intro!: tracked_runLoop)
  qed (use t True c in \<open>simp_all add: intervalFires_def\<close>)
qed

lemma tracked_step:
  assumes t: "tracked (shader p)"
  shows "tracked (shader (step e p))"
proof (cases e)
  case (CallInit rate code now)
  obtain pr s where r: "init rate code (shader p) = (pr, s)" by (cases "init rate code (shader p)")
  have "tracked s" using tracked_init[OF t, of rate code] r by simp
  then show ?thesis
    using CallInit r t by (auto simp: Let_def intro!: tracked_runLoop)
next
  case (CallSetShader code)
  obtain pr s where r: "setShader code False (shader p) = (pr, s)"
    by (cases "setShader code False (shader p)")
  have "tracked s" using tracked_setShader[OF t, of code False] r by simp
  then show ?thesis using CallSetShader r by simp
next
  case (MessageEvent now)
  then show ?thesis using t tracked_onmessage[OF t]
    by (simp split: list.splits)
qed (use t in \<open>simp_all add: tracked_start tracked_stop tracked_dispose tracked_runLoop
       tracked_workerTurn tracked_intervalFires tracked_onended\<close>)

lemma tracked_run: "tracked (shader p) \<Longrightarrow> tracked (shader (run es p))"
  unfolding run_def by (induction es arbitrary: p) (simp_all add: tracked_step)

lemma tracked_reachable: "tracked (shader (run es newPage))"
  by (rule tracked_run) (simp add: newPage_def constructor_def tracked_def)

text \<open>Nothing assigns \<open>bufferAheadTime\<close> after the constructor.\<close>

lemma bufferAheadTime_stop: "bufferAheadTime (stop s) = bufferAheadTime s"
  by (simp add: stop_def)

lemma bufferAheadTime_start: "bufferAheadTime (stateOf (start now s)) = bufferAheadTime s"
  by (auto simp: start_def Let_def split: option.splits prod.splits)

lemma bufferAheadTime_dispose: "bufferAheadTime (dispose s) = bufferAheadTime s"
  by (auto simp: dispose_def stop_def Let_def split: option.splits prod.splits)

lemma bufferAheadTime_generationLoop:
  "bufferAheadTime (stateOf (generationLoop now s)) = bufferAheadTime s"
  by (auto simp: generationLoop_def Let_def split: option.splits)

lemma bufferAheadTime_onmessage:
  "bufferAheadTime (stateOf (renderWorker_onmessage now m s)) = bufferAheadTime s"
  by (cases m)
     (auto simp: renderWorker_onmessage_def onAudioDataGenerated_def Let_def
           split: option.splits prod.splits)

lemma bufferAheadTime_setShader:
  "bufferAheadTime (snd (setShader code offscreen s)) = bufferAheadTime s"
  by (auto simp: setShader_def stop_def Let_def split: option.splits)

lemma bufferAheadTime_init: "bufferAheadTime (snd (init rate code s)) = bufferAheadTime s"
  by (simp add: init_def Let_def bufferAheadTime_setShader)

lemma bufferAheadTime_checkReady:
  "bufferAheadTime (snd (checkReady now w s)) = bufferAheadTime s"
  using bufferAheadTime_start[of now s]
  by (auto simp: checkReady_def split: wait.splits result.splits)

lemma bufferAheadTime_runLoop:
  "bufferAheadTime (shader (runLoop now p)) = bufferAheadTime (shader p)"
  using bufferAheadTime_generationLoop[of now "shader p"]
  by (auto simp: runLoop_def split: result.splits)

lemma bufferAheadTime_intervalFires:
  "bufferAheadTime (shader (intervalFires k now p)) = bufferAheadTime (shader p)"
proof (cases "k < length (calls p)")
  case False
  then show ?thesis by (simp add: intervalFires_def)
next
  case True
  obtain pr isInit where c: "calls p ! k = (pr, isInit)" by (cases "calls p ! k")
  show ?thesis
  proof (cases pr)
    case (Pending w)
    obtain pr' s' where r: "checkReady now w (shader p) = (pr', s')"
      by (cases "checkReady now w (shader p)")
    have "bufferAheadTime s' = bufferAheadTime (shader p)"
      using bufferAheadTime_checkReady[of now w "shader p"] r by simp
    then show ?thesis
      using True c Pending r
      by (auto simp: intervalFires_def Let_def bufferAheadTime_runLoop)
  qed (use True c in \<open>simp_all add: intervalFires_def\<close>)
qed

lemma bufferAheadTime_step: "bufferAheadTime (shader (step e p)) = bufferAheadTime (shader p)"
proof (cases e)
  case (CallInit rate code now)
  obtain pr s where r: "init rate code (shader p) = (pr, s)" by (cases "init rate code (shader p)")
  have "bufferAheadTime s = bufferAheadTime (shader p)"
    using bufferAheadTime_init[of rate code "shader p"] r by simp
  then show ?thesis
    using CallInit r by (auto simp: Let_def bufferAheadTime_runLoop)
next
  case (CallSetShader code)
  obtain pr s where r: "setShader code False (shader p) = (pr, s)"
    by (cases "setShader code False (shader p)")
  have "bufferAheadTime s = bufferAheadTime (shader p)"
    using bufferAheadTime_setShader[of code False "shader p"] r by simp
  then show ?thesis using CallSetShader r by simp
next
  case (WorkerTurn g)
  then show ?thesis
    by (auto simp: workerTurn_def split: option.splits list.splits prod.splits)
qed (simp_all add: bufferAheadTime_start bufferAheadTime_stop bufferAheadTime_dispose
       bufferAheadTime_runLoop bufferAheadTime_intervalFires bufferAheadTime_onmessage
       onended_def split: list.splits)

lemma bufferAheadTime_reachable: "bufferAheadTime (shader (run es newPage)) = 1"
proof -
  have "bufferAheadTime (shader (run es p)) = bufferAheadTime (shader p)" for p
    unfolding run_def by (induction es arbitrary: p) (simp_all add: bufferAheadTime_step)
  then show ?thesis by (simp add: newPage_def constructor_def)
qed

section \<open>The concrete page, evaluated\<close>

lemma tone_facts: "tone \<noteq> []" "broken \<noteq> []" "tone \<noteq> broken" "broken \<noteq> tone"
  by (simp_all add: tone_def broken_def)

lemmas page_defs =
  run_def newPage_def constructor_def workerScript_def init_def setShader_def
  new_AudioContext_def new_Worker_def postMessage_def workerTurn_def self_onmessage_def
  setupWebGL_def setupVertexArray_def updateShader_def compileShader_def
  renderWorker_onmessage_def intervalFires_def checkReady_def runLoop_def generationLoop_def
  start_def stop_def resume_def unhandled_def driver_def lostDriver_def tone_facts Let_def

lemma playing_page:
  "run playing newPage =
     \<lparr> shader =
         \<lparr> audioContext = Some \<lparr> sampleRate = 48000, contextState = Running \<rparr>,
           isRunning = True, currentTime = 0, scheduledUntil = 0,
           renderWorker = Some \<lparr> posted = [], terminated = False \<rparr>,
           shaderCode = Some tone, scheduledSources = [], maxTextureSize = 16384,
           bufferAheadTime = 1, generating = False, workerReady = True, nodes = [],
           console = [] \<rparr>,
       scope = \<lparr> gl = True, program = Some tone, programLinked = True,
                 currentProgram = Some tone, vertexArray = True, texture = None,
                 maxTextureSize_w = 16384, currentWidth = 0 \<rparr>,
       inbox = [], calls = [(Resolved, True)], looping = True \<rparr>"
  by (simp add: playing_def page_defs)

lemma playingShader_eq:
  "playingShader =
     \<lparr> audioContext = Some \<lparr> sampleRate = 48000, contextState = Running \<rparr>,
       isRunning = True, currentTime = 0, scheduledUntil = 0,
       renderWorker = Some \<lparr> posted = [], terminated = False \<rparr>,
       shaderCode = Some tone, scheduledSources = [], maxTextureSize = 16384,
       bufferAheadTime = 1, generating = False, workerReady = True, nodes = [],
       console = [] \<rparr>"
  by (simp add: playingShader_def playing_page)

lemma chunkBuffer_one: "chunkBuffer [x, y] rate = \<lparr> channel0 = [x], channel1 = [y], bufferRate = rate \<rparr>"
  by (simp add: chunkBuffer_def)

lemma scheduledShader_eq:
  "scheduledShader =
     \<lparr> audioContext = Some \<lparr> sampleRate = 48000, contextState = Running \<rparr>,
       isRunning = True, currentTime = 1 / 48000, scheduledUntil = 11 / 100 + 1 / 48000,
       renderWorker = Some \<lparr> posted = [], terminated = False \<rparr>,
       shaderCode = Some tone, scheduledSources = [0], maxTextureSize = 16384,
       bufferAheadTime = 1, generating = False, workerReady = True,
       nodes = [\<lparr> buffer = Some \<lparr> channel0 = [Finite (1 / 2)], channel1 = [Finite (1 / 4)], bufferRate = 48000 \<rparr>,
                  startedAt = Some (11 / 100), stopped = False, isConnected = True \<rparr>],
       console = [] \<rparr>"
proof -
  have "onAudioDataGenerated (1 / 100) [Finite (1 / 2), Finite (1 / 4)] playingShader = Return
     (playingShader\<lparr> nodes := nodes playingShader @
                   [\<lparr> buffer = Some (chunkBuffer [Finite (1 / 2), Finite (1 / 4)] 48000),
                      startedAt = Some (max (scheduledUntil playingShader) (1 / 100 + 1 / 10)),
                      stopped = False, isConnected = True \<rparr>],
                scheduledSources := scheduledSources playingShader @ [length (nodes playingShader)],
                scheduledUntil := max (scheduledUntil playingShader) (1 / 100 + 1 / 10)
                                    + duration (chunkBuffer [Finite (1 / 2), Finite (1 / 4)] 48000),
                currentTime := currentTime playingShader + duration (chunkBuffer [Finite (1 / 2), Finite (1 / 4)] 48000) \<rparr>)"
    by (rule onAudioDataGenerated_running[where c = "\<lparr> sampleRate = 48000, contextState = Running \<rparr>", simplified])
       (simp_all add: playingShader_eq)
  then show ?thesis
    by (simp add: scheduledShader_def playingShader_eq chunkBuffer_one duration_def)
qed

lemma servedScope_eq:
  "servedScope = \<lparr> gl = True, program = Some tone, programLinked = True,
                    currentProgram = Some tone, vertexArray = True, texture = Some 2,
                    maxTextureSize_w = 2, currentWidth = 2 \<rparr>"
  by (simp add: servedScope_def self_onmessage_def generateAudio_def narrowScope_def
        driver_def Let_def)

lemma driver_time:
  "fragmentTime driver (toFloat driver 48000) (toFloat driver 0) x = Finite (of_nat x / 48000)"
  by (simp add: fragmentTime_def driver_def)

lemma driver_sound:
  "toHalf driver (fst (mainSound driver code (Finite a))) = Finite a"
  "toHalf driver (snd (mainSound driver code (Finite a))) = Finite (- a)"
  by (simp_all add: driver_def)

text \<open>
  After a first program that did not compile, the attribute array is never enabled, and
  the repaired program renders nothing: the render request is answered with zeros.
\<close>

lemma repaired_page:
  "inbox (run repaired newPage) = [AudioData [Finite 0, Finite 0, Finite 0, Finite 0]] \<and>
   scope (run repaired newPage) =
     \<lparr> gl = True, program = Some tone, programLinked = True, currentProgram = Some tone,
       vertexArray = False, texture = Some 2, maxTextureSize_w = 2, currentWidth = 2 \<rparr> \<and>
   evaluatedWidth smallDriver (scope (run repaired newPage)) 2 = 0 \<and>
   isRunning (shader (run repaired newPage)) \<and> workerReady (shader (run repaired newPage)) \<and>
   calls (run repaired newPage) = [(Resolved, True), (Resolved, False)]"
proof -
  have u: "[0..<2] = [0, 1]" by (simp add: upt_rec)
  show ?thesis
    by (simp add: repaired_def page_defs smallDriver_def generateAudio_def drawAndCopy_eq
          pixel_def evaluatedWidth_def u)
qed

text \<open>
  After a failed change of width the variables disagree: the texture and the framebuffer
  are those of the new width, \<open>currentWidth\<close> is the old one. The next request of the
  old width binds that framebuffer without a check and shades only the columns its
  texture has; here one of two, and the second frame is left zero.
\<close>

lemma stale_framebuffer:
  "self_onmessage lostDriver (Render 1 48000 0) servedScope =
     (servedScope\<lparr> texture := Some 1 \<rparr>, [Error FramebufferError, Error GenerationFailed]) \<and>
   evaluatedWidth driver (servedScope\<lparr> texture := Some 1 \<rparr>) 2 = 1 \<and>
   self_onmessage driver (Render 8192 48000 0) (servedScope\<lparr> texture := Some 1 \<rparr>) =
     (servedScope\<lparr> texture := Some 1 \<rparr>,
      [AudioData [Finite 0, Finite 0, Finite 0, Finite 0]])"
proof -
  have u: "[0..<2] = [0, 1]" by (simp add: upt_rec)
  show ?thesis
    by (simp add: self_onmessage_def generateAudio_def servedScope_eq lostDriver_def
          drawAndCopy_eq pixel_def evaluatedWidth_def fragmentMain_def fragmentTime_def
          driver_def u Let_def)
qed

section \<open>Properties of the specification\<close>

text \<open>
  C1, as amended. A unit scheduled while running starts at
  \<open>max(scheduledUntil, now + 0.1)\<close>: never before the previous value of
  \<open>scheduledUntil\<close>, so units do not overlap, and exactly at it when
  \<open>scheduledUntil \<ge> now + 0.1\<close>, in which case \<open>scheduledUntil\<close> grows by exactly the
  unit's duration. Otherwise the unit starts at \<open>now + 0.1\<close> and a gap of
  \<open>now + 0.1 - scheduledUntil\<close> is left before it. In both cases \<open>scheduledUntil\<close>
  strictly increases, to the end of the new unit.
\<close>

theorem schedule_without_overlap:
  assumes "isRunning s" and "audioContext s = Some c" and "0 < sampleRate c"
    and "onAudioDataGenerated now audioData s = Return s'"
  shows "\<exists>b st.
      nodes s' = nodes s @
        [\<lparr> buffer = Some b, startedAt = Some st, stopped = False, isConnected = True \<rparr>] \<and>
      st = max (scheduledUntil s) (now + 1 / 10) \<and>
      scheduledUntil s \<le> st \<and>
      scheduledUntil s' = st + duration b \<and>
      0 < duration b \<and>
      scheduledUntil s < scheduledUntil s' \<and>
      (now + 1 / 10 \<le> scheduledUntil s \<longrightarrow>
         st = scheduledUntil s \<and> scheduledUntil s' = scheduledUntil s + duration b) \<and>
      (scheduledUntil s < now + 1 / 10 \<longrightarrow>
         st = now + 1 / 10 \<and>
         scheduledUntil s' = scheduledUntil s + duration b + (now + 1 / 10 - scheduledUntil s))"
proof -
  have len: "2 \<le> length audioData"
  proof (rule ccontr)
    assume "\<not> 2 \<le> length audioData"
    then have "\<not> returned (onAudioDataGenerated now audioData s)"
      using assms(1) by (intro onAudioDataGenerated_throws) auto
    then show False using assms(4) by simp
  qed
  let ?b = "chunkBuffer audioData (sampleRate c)"
  let ?st = "max (scheduledUntil s) (now + 1 / 10)"
  have "0 < length audioData div 2" using len by simp
  then have pos: "0 < duration ?b"
    using assms(3) by (simp add: duration_chunkBuffer)
  have s': "s' = s\<lparr> nodes := nodes s @
                   [\<lparr> buffer = Some ?b, startedAt = Some ?st, stopped = False, isConnected = True \<rparr>],
                scheduledSources := scheduledSources s @ [length (nodes s)],
                scheduledUntil := ?st + duration ?b,
                currentTime := currentTime s + duration ?b \<rparr>"
    using onAudioDataGenerated_running[OF assms(1,2) len, of now] assms(4) by simp
  have "scheduledUntil s < ?st + duration ?b" using pos by (simp add: max_def)
  then show ?thesis
    using pos by (intro exI[of _ ?b] exI[of _ ?st]) (auto simp: s' max_def)
qed

theorem schedule_without_overlap_witness:
  "isRunning scheduledShader \<and>
   audioContext scheduledShader = Some \<lparr> sampleRate = 48000, contextState = Running \<rparr> \<and>
   returned (onAudioDataGenerated (1 / 100) [Finite 0, Finite 0, Finite 1, Finite 1] scheduledShader) \<and>
   (\<exists>b. 0 < duration b \<and>
      scheduledUntil (stateOf (onAudioDataGenerated (1 / 100) [Finite 0, Finite 0, Finite 1, Finite 1] scheduledShader)) =
        scheduledUntil scheduledShader + duration b)"
proof -
  let ?c = "\<lparr> sampleRate = 48000, contextState = Running \<rparr>"
  let ?r = "onAudioDataGenerated (1 / 100) [Finite 0, Finite 0, Finite 1, Finite 1] scheduledShader"
  have run: "isRunning scheduledShader" and ctx: "audioContext scheduledShader = Some ?c"
    by (simp_all add: scheduledShader_eq)
  have pos: "0 < sampleRate ?c" by simp
  have ret: "?r = Return (stateOf ?r)"
    using onAudioDataGenerated_running[OF run ctx, of "[Finite 0, Finite 0, Finite 1, Finite 1]" "1 / 100"] by simp
  have le: "1 / 100 + 1 / 10 \<le> scheduledUntil scheduledShader"
    by (simp add: scheduledShader_eq)
  from schedule_without_overlap[OF run ctx pos ret] obtain b st where
    d: "0 < duration b" and
    g: "1 / 100 + 1 / 10 \<le> scheduledUntil scheduledShader \<longrightarrow>
          st = scheduledUntil scheduledShader \<and>
          scheduledUntil (stateOf ?r) = scheduledUntil scheduledShader + duration b"
    by blast
  from g le have "scheduledUntil (stateOf ?r) = scheduledUntil scheduledShader + duration b"
    by blast
  moreover have "returned ?r" by (subst ret) simp
  ultimately show ?thesis using run ctx d by blast
qed

text \<open>
  C1 as stated fails on the first chunk after \<open>start()\<close>: \<open>scheduledUntil\<close> is 0, the
  chunk of one frame (1/48000 s) arrives at 0.01 s, the unit starts at 0.11 rather than at
  0, and \<open>scheduledUntil\<close> grows by 0.11 + 1/48000 rather than by 1/48000.
\<close>

theorem schedule_gap_counterexample:
  "isRunning playingShader \<and> scheduledUntil playingShader = 0 \<and>
   onAudioDataGenerated (1 / 100) [Finite (1 / 2), Finite (1 / 4)] playingShader = Return scheduledShader \<and>
   nodes scheduledShader =
     [\<lparr> buffer = Some \<lparr> channel0 = [Finite (1 / 2)], channel1 = [Finite (1 / 4)], bufferRate = 48000 \<rparr>,
        startedAt = Some (11 / 100), stopped = False, isConnected = True \<rparr>] \<and>
   duration \<lparr> channel0 = [Finite (1 / 2)], channel1 = [Finite (1 / 4)], bufferRate = 48000 \<rparr> = 1 / 48000 \<and>
   scheduledUntil scheduledShader = 11 / 100 + 1 / 48000 \<and>
   scheduledUntil scheduledShader \<noteq> scheduledUntil playingShader + 1 / 48000 \<and>
   (11 / 100 :: rat) \<noteq> scheduledUntil playingShader"
proof -
  have "onAudioDataGenerated (1 / 100) [Finite (1 / 2), Finite (1 / 4)] playingShader =
      Return (stateOf (onAudioDataGenerated (1 / 100) [Finite (1 / 2), Finite (1 / 4)] playingShader))"
    using onAudioDataGenerated_running[of playingShader
        "\<lparr> sampleRate = 48000, contextState = Running \<rparr>" "[Finite (1 / 2), Finite (1 / 4)]" "1 / 100"]
    by (simp add: playingShader_eq)
  then have "onAudioDataGenerated (1 / 100) [Finite (1 / 2), Finite (1 / 4)] playingShader = Return scheduledShader"
    by (simp add: scheduledShader_def)
  then show ?thesis
    by (simp add: scheduledShader_eq playingShader_eq duration_def)
qed

text \<open>
  The guard of the generation loop. On a tick while running (on an initialised instance,
  whose lookahead target is the constructor's 1.0 s) a render request is posted exactly
  when \<open>scheduledUntil - now < 1\<close>, the worker is ready and the flag \<open>generating\<close> is
  unset; the request carries \<open>min(maxTextureSize, 8192)\<close> samples, the context's sample
  rate and \<open>currentTime\<close> as its time offset, and the flag is set with it. In any other
  case the tick changes nothing.
\<close>

lemma generationLoop_guard:
  assumes "isRunning s" and "audioContext s = Some c" and "renderWorker s = Some w"
    and "bufferAheadTime s = 1"
  shows "(scheduledUntil s - now < 1 \<and> workerReady s \<and> \<not> generating s \<longrightarrow>
            generationLoop now s =
              Return (s\<lparr> generating := True,
                         renderWorker := Some (postMessage
                           (Render (min (maxTextureSize s) 8192) (sampleRate c) (currentTime s))
                           w) \<rparr>)) \<and>
         (\<not> (scheduledUntil s - now < 1 \<and> workerReady s \<and> \<not> generating s) \<longrightarrow>
            generationLoop now s = Return s)"
  using assms by (simp add: generationLoop_def Let_def)

lemma flagCleared_eq:
  "flagCleared = playing @
     [AnimationFrame (1 / 100), WorkerTurn lostDriver, MessageEvent (2 / 100),
      AnimationFrame (3 / 100), MessageEvent (4 / 100)]"
  by (simp add: flagCleared_def twoErrors_def butlast_append)

lemma flagCleared_shader:
  "shader (run flagCleared newPage) =
     \<lparr> audioContext = Some \<lparr> sampleRate = 48000, contextState = Running \<rparr>,
       isRunning = True, currentTime = 0, scheduledUntil = 0,
       renderWorker = Some \<lparr> posted = [Render 8192 48000 0], terminated = False \<rparr>,
       shaderCode = Some tone, scheduledSources = [], maxTextureSize = 16384,
       bufferAheadTime = 1, generating = False, workerReady = True, nodes = [],
       console = [WorkerErrorLogged FramebufferError, WorkerErrorLogged GenerationFailed] \<rparr>"
  by (simp add: flagCleared_eq run_def playing_page[unfolded run_def]
        workerTurn_def self_onmessage_def generateAudio_def lostDriver_def driver_def
        runLoop_def generationLoop_def postMessage_def renderWorker_onmessage_def Let_def)

text \<open>
  C3 fails on the code. The tick tests the flag \<open>generating\<close>, and the flag does not
  say whether a request is in flight: once both error messages of a failed request have
  been dispatched, with an animation frame between them, the flag is unset while the
  second request waits in the worker's queue. The next tick finds the buffer low, the
  worker ready and the flag unset, and posts a third request beside it.
\<close>

theorem tick_posts_beside_request_in_flight:
  "isRunning (shader (run flagCleared newPage)) \<and>
   workerReady (shader (run flagCleared newPage)) \<and>
   scheduledUntil (shader (run flagCleared newPage)) - 1 / 20 <
     bufferAheadTime (shader (run flagCleared newPage)) \<and>
   \<not> generating (shader (run flagCleared newPage)) \<and>
   rendersWaiting (run flagCleared newPage) = 1 \<and>
   renderWorker (shader (run flagCleared newPage)) =
     Some \<lparr> posted = [Render 8192 48000 0], terminated = False \<rparr> \<and>
   generationLoop (1 / 20) (shader (run flagCleared newPage)) =
     Return ((shader (run flagCleared newPage))
       \<lparr> generating := True,
         renderWorker :=
           Some \<lparr> posted = [Render 8192 48000 0, Render 8192 48000 0], terminated = False \<rparr> \<rparr>)"
  by (simp add: rendersWaiting_def flagCleared_shader generationLoop_def postMessage_def Let_def)

text \<open>
  C4. A chunk of at least one stereo frame received while running (on an initialised
  instance) is scheduled: the message handler returns normally, the new unit starts at
  \<open>max(scheduledUntil, now + 0.1)\<close> and lasts the chunk's frame count over the sample
  rate, \<open>scheduledUntil\<close> becomes that start plus the duration, and \<open>currentTime\<close>
  advances by the duration.
\<close>

theorem chunk_scheduled:
  assumes "isRunning s" and "audioContext s = Some c" and "2 \<le> length audioData"
  shows "\<exists>s' b.
      renderWorker_onmessage now (AudioData audioData) s = Return s' \<and>
      nodes s' = nodes s @
        [\<lparr> buffer = Some b, startedAt = Some (max (scheduledUntil s) (now + 1 / 10)),
           stopped = False, isConnected = True \<rparr>] \<and>
      scheduledSources s' = scheduledSources s @ [length (nodes s)] \<and>
      duration b = of_nat (length audioData div 2) / sampleRate c \<and>
      scheduledUntil s' = max (scheduledUntil s) (now + 1 / 10) + duration b \<and>
      currentTime s' = currentTime s + duration b"
proof -
  have "isRunning (s\<lparr> generating := False \<rparr>)"
    and "audioContext (s\<lparr> generating := False \<rparr>) = Some c"
    using assms(1,2) by simp_all
  from onAudioDataGenerated_running[OF this assms(3), of now]
  show ?thesis
    by (simp add: renderWorker_onmessage_def duration_chunkBuffer)
qed

theorem chunk_scheduled_witness:
  "isRunning playingShader \<and>
   audioContext playingShader = Some \<lparr> sampleRate = 48000, contextState = Running \<rparr> \<and>
   2 \<le> length [Finite (1 / 2), Finite (1 / 4)] \<and>
   returned (renderWorker_onmessage (1 / 100) (AudioData [Finite (1 / 2), Finite (1 / 4)]) playingShader) \<and>
   map startedAt
     (nodes (stateOf (renderWorker_onmessage (1 / 100) (AudioData [Finite (1 / 2), Finite (1 / 4)]) playingShader))) =
     [Some (11 / 100)] \<and>
   scheduledUntil
     (stateOf (renderWorker_onmessage (1 / 100) (AudioData [Finite (1 / 2), Finite (1 / 4)]) playingShader)) =
     11 / 100 + 1 / 48000 \<and>
   currentTime
     (stateOf (renderWorker_onmessage (1 / 100) (AudioData [Finite (1 / 2), Finite (1 / 4)]) playingShader)) =
     1 / 48000"
proof -
  let ?c = "\<lparr> sampleRate = 48000, contextState = Running \<rparr>"
  let ?r = "renderWorker_onmessage (1 / 100) (AudioData [Finite (1 / 2), Finite (1 / 4)]) playingShader"
  have h: "isRunning playingShader" "audioContext playingShader = Some ?c"
    "2 \<le> length [Finite (1 / 2), Finite (1 / 4)]"
    by (simp_all add: playingShader_eq)
  have v: "scheduledUntil playingShader = 0" "currentTime playingShader = 0"
    "nodes playingShader = []"
    by (simp_all add: playingShader_eq)
  from chunk_scheduled[OF h, of "1 / 100"] obtain s' b where
    r: "?r = Return s'" and
    n: "nodes s' = nodes playingShader @
        [\<lparr> buffer = Some b, startedAt = Some (max (scheduledUntil playingShader) (1 / 100 + 1 / 10)),
           stopped = False, isConnected = True \<rparr>]" and
    d: "duration b = of_nat (length [Finite (1 / 2), Finite (1 / 4)] div 2) / sampleRate ?c" and
    u: "scheduledUntil s' = max (scheduledUntil playingShader) (1 / 100 + 1 / 10) + duration b" and
    c: "currentTime s' = currentTime playingShader + duration b"
    by blast
  have 1: "returned ?r" and 2: "stateOf ?r = s'" by (simp_all add: r)
  have 3: "map startedAt (nodes s') = [Some (11 / 100)]" using n v by simp
  have 4: "duration b = 1 / 48000" using d by simp
  have 5: "scheduledUntil s' = 11 / 100 + 1 / 48000" using u v 4 by simp
  have 6: "currentTime s' = 1 / 48000" using c v 4 by simp
  show ?thesis unfolding 2 using h 1 3 5 6 by (intro conjI)
qed

text \<open>
  C5. \<open>stop()\<close> leaves the instance stopped, with every tracked source stopped and
  disconnected, the tracked list empty and both \<open>currentTime\<close> and \<open>scheduledUntil\<close>
  at 0. A following \<open>start()\<close> (on an initialised instance) returns with a timeline
  that depends on the clock alone: running, \<open>currentTime = 0\<close>,
  \<open>scheduledUntil = now\<close>, nothing tracked.
\<close>

theorem stop_resets:
  assumes "tracked s"
  shows "isRunning (stop s) = False \<and> scheduledSources (stop s) = [] \<and>
         currentTime (stop s) = 0 \<and> scheduledUntil (stop s) = 0 \<and>
         (\<forall>i \<in> set (scheduledSources s).
            stopped (nodes (stop s) ! i) \<and> \<not> isConnected (nodes (stop s) ! i)) \<and>
         (\<forall>now. audioContext s \<noteq> None \<longrightarrow>
            (\<exists>s'. start now (stop s) = Return s' \<and> isRunning s' \<and> currentTime s' = 0 \<and>
               scheduledUntil s' = now \<and> scheduledSources s' = []))"
  using assms stop_halts start_after_stop by (auto simp: stop_fields)

theorem stop_resets_witness:
  "tracked scheduledShader \<and> scheduledSources scheduledShader = [0] \<and>
   audioContext scheduledShader \<noteq> None \<and>
   isRunning (stop scheduledShader) = False \<and> scheduledSources (stop scheduledShader) = [] \<and>
   currentTime (stop scheduledShader) = 0 \<and> scheduledUntil (stop scheduledShader) = 0 \<and>
   stopped (nodes (stop scheduledShader) ! 0) \<and> \<not> isConnected (nodes (stop scheduledShader) ! 0) \<and>
   (\<exists>s'. start 5 (stop scheduledShader) = Return s' \<and> isRunning s' \<and> currentTime s' = 0 \<and>
      scheduledUntil s' = 5 \<and> scheduledSources s' = [])"
proof -
  have t: "tracked scheduledShader"
    by (simp add: tracked_def scheduledShader_eq del: not_None_eq)
  have v: "scheduledSources scheduledShader = [0]" and c: "audioContext scheduledShader \<noteq> None"
    by (simp_all add: scheduledShader_eq)
  note r = stop_resets[OF t]
  from r have f: "isRunning (stop scheduledShader) = False" "scheduledSources (stop scheduledShader) = []"
    "currentTime (stop scheduledShader) = 0" "scheduledUntil (stop scheduledShader) = 0"
    by blast+
  from r have "\<forall>i \<in> set (scheduledSources scheduledShader).
      stopped (nodes (stop scheduledShader) ! i) \<and> \<not> isConnected (nodes (stop scheduledShader) ! i)"
    by blast
  then have h: "stopped (nodes (stop scheduledShader) ! 0)"
    "\<not> isConnected (nodes (stop scheduledShader) ! 0)"
    unfolding v by simp_all
  from r c have s: "\<exists>s'. start 5 (stop scheduledShader) = Return s' \<and> isRunning s' \<and>
      currentTime s' = 0 \<and> scheduledUntil s' = 5 \<and> scheduledSources s' = []"
    by blast
  show ?thesis using t v c f h s by (intro conjI)
qed

text \<open>
  C7. A chunk that arrives while the instance is not running is dropped:
  \<open>onAudioDataGenerated\<close> returns at once with the instance as it was, so the handler
  changes nothing but the in-flight flag it clears before the call; no node is created,
  the timeline and the tracked list are as before, and nothing is reported.
\<close>

theorem stale_chunk_discarded:
  assumes "\<not> isRunning s"
  shows "onAudioDataGenerated now audioData s = Return s \<and>
         renderWorker_onmessage now (AudioData audioData) s = Return (s\<lparr> generating := False \<rparr>) \<and>
         nodes (stateOf (renderWorker_onmessage now (AudioData audioData) s)) = nodes s \<and>
         scheduledSources (stateOf (renderWorker_onmessage now (AudioData audioData) s)) =
           scheduledSources s \<and>
         currentTime (stateOf (renderWorker_onmessage now (AudioData audioData) s)) = currentTime s \<and>
         scheduledUntil (stateOf (renderWorker_onmessage now (AudioData audioData) s)) =
           scheduledUntil s \<and>
         console (stateOf (renderWorker_onmessage now (AudioData audioData) s)) = console s"
  using assms by (simp add: onAudioDataGenerated_def renderWorker_onmessage_def)

theorem stale_chunk_discarded_witness:
  "\<not> isRunning (stop scheduledShader) \<and>
   onAudioDataGenerated (1 / 5) [Finite (1 / 2), Finite (1 / 4)] (stop scheduledShader) =
     Return (stop scheduledShader) \<and>
   renderWorker_onmessage (1 / 5) (AudioData [Finite (1 / 2), Finite (1 / 4)]) (stop scheduledShader) =
     Return ((stop scheduledShader)\<lparr> generating := False \<rparr>) \<and>
   scheduledUntil (stateOf (renderWorker_onmessage (1 / 5) (AudioData [Finite (1 / 2), Finite (1 / 4)])
     (stop scheduledShader))) = 0"
proof -
  have n: "\<not> isRunning (stop scheduledShader)" by (simp add: stop_fields)
  from stale_chunk_discarded[OF n, of "1 / 5" "[Finite (1 / 2), Finite (1 / 4)]"] n
  show ?thesis by (simp add: stop_fields)
qed

text \<open>
  C2 fails on the code. A render request that meets an incomplete framebuffer is answered
  with two \<open>error\<close> messages (\<open>generateAudio\<close> posts one, \<open>self.onmessage\<close> the
  other), and the handler clears \<open>generating\<close> at each. With an animation frame after
  each of them, the second request is posted after the first message and the third after
  the second, while the second is still waiting in the worker's queue.
\<close>

theorem two_renders_in_flight:
  "renderWorker (shader (run twoErrors newPage)) =
     Some \<lparr> posted = [Render 8192 48000 0, Render 8192 48000 0], terminated = False \<rparr> \<and>
   rendersWaiting (run twoErrors newPage) = 2 \<and>
   generating (shader (run twoErrors newPage)) \<and>
   console (shader (run twoErrors newPage)) =
     [WorkerErrorLogged FramebufferError, WorkerErrorLogged GenerationFailed]"
  by (simp add: twoErrors_def run_def playing_page[unfolded run_def] rendersWaiting_def
        workerTurn_def self_onmessage_def generateAudio_def lostDriver_def driver_def
        runLoop_def generationLoop_def postMessage_def renderWorker_onmessage_def Let_def)

text \<open>
  C6, as amended. \<open>setShader\<close> on a running instance (with a worker) stops playback,
  posts \<open>updateShader\<close> and waits. Each firing of its timer that finds
  \<open>workerReady\<close> unset leaves everything as it is; an \<open>error\<close> message sets neither
  \<open>workerReady\<close> nor \<open>isRunning\<close>, so it does not end the wait; the firing that finds
  \<open>workerReady\<close> set calls \<open>start()\<close> and goes on to the final wait.
\<close>

theorem setShader_swap:
  assumes "isRunning s" and "renderWorker s = Some w"
  shows "setShader code False s =
           (Pending (AwaitSwap True),
            (stop (s\<lparr> shaderCode := Some code, workerReady := False \<rparr>))
              \<lparr> renderWorker := Some (postMessage (UpdateShader code) w) \<rparr>) \<and>
         \<not> isRunning (snd (setShader code False s)) \<and>
         \<not> workerReady (snd (setShader code False s)) \<and>
         (\<forall>now u. \<not> workerReady u \<longrightarrow>
            checkReady now (AwaitSwap True) u = (Pending (AwaitSwap True), u)) \<and>
         (\<forall>now e u. workerReady (stateOf (renderWorker_onmessage now (Error e) u)) = workerReady u \<and>
            isRunning (stateOf (renderWorker_onmessage now (Error e) u)) = isRunning u) \<and>
         (\<forall>now u. workerReady u \<and> \<not> isRunning u \<and> audioContext u \<noteq> None \<longrightarrow>
            checkReady now (AwaitSwap True) u = (Pending AwaitReady, stateOf (start now u)) \<and>
            isRunning (stateOf (start now u)) \<and> scheduledUntil (stateOf (start now u)) = now \<and>
            currentTime (stateOf (start now u)) = 0)"
proof -
  have "setShader code False s =
           (Pending (AwaitSwap True),
            (stop (s\<lparr> shaderCode := Some code, workerReady := False \<rparr>))
              \<lparr> renderWorker := Some (postMessage (UpdateShader code) w) \<rparr>)"
    using assms by (simp add: setShader_def Let_def stop_fields)
  moreover have "checkReady now (AwaitSwap True) u = (Pending (AwaitSwap True), u)"
    if "\<not> workerReady u" for now u
    using that by (simp add: checkReady_def)
  moreover have "workerReady (stateOf (renderWorker_onmessage now (Error e) u)) = workerReady u \<and>
      isRunning (stateOf (renderWorker_onmessage now (Error e) u)) = isRunning u" for now e u
    by (simp add: renderWorker_onmessage_def)
  moreover have "checkReady now (AwaitSwap True) u = (Pending AwaitReady, stateOf (start now u)) \<and>
      isRunning (stateOf (start now u)) \<and> scheduledUntil (stateOf (start now u)) = now \<and>
      currentTime (stateOf (start now u)) = 0"
    if "workerReady u \<and> \<not> isRunning u \<and> audioContext u \<noteq> None" for now u
    using that by (auto simp: checkReady_def start_def Let_def split: prod.splits)
  ultimately show ?thesis
    by (simp add: stop_fields)
qed

theorem setShader_swap_witness:
  "isRunning playingShader \<and>
   renderWorker playingShader = Some \<lparr> posted = [], terminated = False \<rparr> \<and>
   fst (setShader broken False playingShader) = Pending (AwaitSwap True) \<and>
   renderWorker (snd (setShader broken False playingShader)) =
     Some \<lparr> posted = [UpdateShader broken], terminated = False \<rparr> \<and>
   \<not> isRunning (snd (setShader broken False playingShader)) \<and>
   checkReady (1 / 50) (AwaitSwap True) (snd (setShader broken False playingShader)) =
     (Pending (AwaitSwap True), snd (setShader broken False playingShader)) \<and>
   fst (checkReady (1 / 50) (AwaitSwap True)
     ((snd (setShader broken False playingShader))\<lparr> workerReady := True \<rparr>)) = Pending AwaitReady \<and>
   isRunning (snd (checkReady (1 / 50) (AwaitSwap True)
     ((snd (setShader broken False playingShader))\<lparr> workerReady := True \<rparr>)))"
proof -
  let ?w = "\<lparr> posted = [], terminated = False \<rparr>"
  let ?s = "snd (setShader broken False playingShader)"
  have h: "isRunning playingShader" "renderWorker playingShader = Some ?w"
    by (simp_all add: playingShader_eq)
  note r = setShader_swap[OF h, of broken]
  from r have e: "setShader broken False playingShader =
           (Pending (AwaitSwap True),
            (stop (playingShader\<lparr> shaderCode := Some broken, workerReady := False \<rparr>))
              \<lparr> renderWorker := Some (postMessage (UpdateShader broken) ?w) \<rparr>)"
    and n: "\<not> isRunning ?s" "\<not> workerReady ?s"
    by blast+
  from r have p: "\<forall>now u. \<not> workerReady u \<longrightarrow>
            checkReady now (AwaitSwap True) u = (Pending (AwaitSwap True), u)"
    by blast
  from r have q: "\<forall>now u. workerReady u \<and> \<not> isRunning u \<and> audioContext u \<noteq> None \<longrightarrow>
            checkReady now (AwaitSwap True) u = (Pending AwaitReady, stateOf (start now u)) \<and>
            isRunning (stateOf (start now u)) \<and> scheduledUntil (stateOf (start now u)) = now \<and>
            currentTime (stateOf (start now u)) = 0"
    by blast
  have 1: "fst (setShader broken False playingShader) = Pending (AwaitSwap True)"
    by (simp add: e)
  have 2: "renderWorker ?s = Some \<lparr> posted = [UpdateShader broken], terminated = False \<rparr>"
    by (simp add: e postMessage_def)
  have 3: "checkReady (1 / 50) (AwaitSwap True) ?s = (Pending (AwaitSwap True), ?s)"
    using p n(2) by blast
  have "audioContext ?s = audioContext playingShader"
    by (simp add: e stop_fields)
  then have c: "audioContext ?s \<noteq> None"
    by (simp add: playingShader_eq)
  have "workerReady (?s\<lparr> workerReady := True \<rparr>) \<and> \<not> isRunning (?s\<lparr> workerReady := True \<rparr>) \<and>
      audioContext (?s\<lparr> workerReady := True \<rparr>) \<noteq> None"
    using n(1) c by simp
  with q have 4: "checkReady (1 / 50) (AwaitSwap True) (?s\<lparr> workerReady := True \<rparr>) =
      (Pending AwaitReady, stateOf (start (1 / 50) (?s\<lparr> workerReady := True \<rparr>)))"
    and 5: "isRunning (stateOf (start (1 / 50) (?s\<lparr> workerReady := True \<rparr>)))"
    by blast+
  have 6: "fst (checkReady (1 / 50) (AwaitSwap True) (?s\<lparr> workerReady := True \<rparr>)) = Pending AwaitReady"
    and 7: "isRunning (snd (checkReady (1 / 50) (AwaitSwap True) (?s\<lparr> workerReady := True \<rparr>)))"
    using 5 by (simp_all add: 4)
  show ?thesis using h 1 2 n(1) 3 6 7 by (intro conjI)
qed

text \<open>
  C6 as stated fails when the renderer signals an error. After \<open>setShader(broken)\<close> on
  the playing instance the worker reports the compile error and the page logs it; three
  firings of the timer later the call is still in its first wait and playback is still
  stopped.
\<close>

theorem failed_swap_counterexample:
  "isRunning (shader (run playing newPage)) \<and>
   \<not> isRunning (shader (run failedSwap newPage)) \<and>
   calls (run failedSwap newPage) = [(Resolved, True), (Pending (AwaitSwap True), False)] \<and>
   console (shader (run failedSwap newPage)) = [WorkerErrorLogged (ShaderError ''syntax error'')] \<and>
   inbox (run failedSwap newPage) = [] \<and>
   \<not> workerReady (shader (run failedSwap newPage))"
  by (simp add: failedSwap_def run_def playing_page[unfolded run_def]
        setShader_def stop_def workerTurn_def self_onmessage_def updateShader_def
        compileShader_def driver_def postMessage_def renderWorker_onmessage_def
        intervalFires_def checkReady_def tone_facts Let_def)

text \<open>
  C8, as amended. \<open>generateAudio\<close> works on the clamped count
  \<open>m = min(numSamples, maxTextureSize)\<close>: a request gives what the request for \<open>m\<close>
  gives, whatever the requested count. On a worker whose set-up enabled the vertex data
  and made a program current, and whose framebuffer in place (when the width is the
  current one) is of that width and complete, the request either fails, when a framebuffer
  of width \<open>m\<close> has to be made and is incomplete, or evaluates exactly the \<open>m\<close> samples
  of columns 0 to \<open>m - 1\<close> and returns the two half floats of each.
\<close>

theorem render_clamped:
  assumes "m = min numSamples (maxTextureSize_w w)"
    and "vertexArray w" and "currentProgram w = Some code"
    and "currentWidth w = m \<longrightarrow> texture w = Some m \<and> framebufferComplete g m"
  shows "generateAudio g numSamples rate t w = generateAudio g m rate t w \<and>
     (if currentWidth w \<noteq> m \<and> \<not> framebufferComplete g m
      then generateAudio g numSamples rate t w =
             (w\<lparr> texture := Some m \<rparr>, [Error FramebufferError], None)
      else \<exists>w' d.
             generateAudio g numSamples rate t w = (w', [], Some d) \<and>
             currentWidth w' = m \<and> texture w' = Some m \<and>
             evaluatedWidth g w' m = m \<and>
             length d = m * 2 \<and>
             d = concat (map (\<lambda>x.
                   [toHalf g (fst (mainSound g code
                      (fragmentTime g (toFloat g rate) (toFloat g t) x))),
                    toHalf g (snd (mainSound g code
                      (fragmentTime g (toFloat g rate) (toFloat g t) x)))])
                 [0..<m]))"
proof -
  have same: "generateAudio g numSamples rate t w = generateAudio g m rate t w"
    unfolding assms(1) by (rule generateAudio_clamped)
  have chunk: "drawAndCopy g rate t m w' =
      concat (map (\<lambda>x.
         [toHalf g (fst (mainSound g code (fragmentTime g (toFloat g rate) (toFloat g t) x))),
          toHalf g (snd (mainSound g code (fragmentTime g (toFloat g rate) (toFloat g t) x)))])
        [0..<m])"
    if "currentProgram w' = Some code" and "evaluatedWidth g w' m = m" for w'
  proof -
    have "[pixel g w' rate t m x ! 0, pixel g w' rate t m x ! 1] =
        [toHalf g (fst (mainSound g code (fragmentTime g (toFloat g rate) (toFloat g t) x))),
         toHalf g (snd (mainSound g code (fragmentTime g (toFloat g rate) (toFloat g t) x)))]"
      if "x \<in> set [0..<m]" for x
    proof -
      from that \<open>evaluatedWidth g w' m = m\<close> have "x < evaluatedWidth g w' m" by simp
      from pixel_shaded[OF \<open>currentProgram w' = Some code\<close> this] show ?thesis by simp
    qed
    then have "map (\<lambda>x. [pixel g w' rate t m x ! 0, pixel g w' rate t m x ! 1]) [0..<m] =
        map (\<lambda>x.
         [toHalf g (fst (mainSound g code (fragmentTime g (toFloat g rate) (toFloat g t) x))),
          toHalf g (snd (mainSound g code (fragmentTime g (toFloat g rate) (toFloat g t) x)))])
        [0..<m]"
      by (intro map_cong refl)
    then show ?thesis by (simp only: drawAndCopy_eq)
  qed
  show ?thesis
  proof (cases "currentWidth w = m")
    case True
    let ?d = "drawAndCopy g rate t m w"
    have ga: "generateAudio g numSamples rate t w = (w, [], Some ?d)"
      using generateAudio_reused[of w numSamples g rate t] True assms(1) by simp
    have ev: "evaluatedWidth g w m = m"
      using True assms(2-4) by (simp add: evaluatedWidth_def)
    have "\<exists>w' d. generateAudio g numSamples rate t w = (w', [], Some d) \<and>
             currentWidth w' = m \<and> texture w' = Some m \<and> evaluatedWidth g w' m = m \<and>
             length d = m * 2 \<and>
             d = concat (map (\<lambda>x.
                   [toHalf g (fst (mainSound g code
                      (fragmentTime g (toFloat g rate) (toFloat g t) x))),
                    toHalf g (snd (mainSound g code
                      (fragmentTime g (toFloat g rate) (toFloat g t) x)))])
                 [0..<m])"
    proof (rule exI[of _ w], rule exI[of _ ?d], intro conjI)
      show "generateAudio g numSamples rate t w = (w, [], Some ?d)" by (rule ga)
      show "currentWidth w = m" by (rule True)
      show "texture w = Some m" using True assms(4) by simp
      show "evaluatedWidth g w m = m" by (rule ev)
      show "length ?d = m * 2" by (rule length_drawAndCopy)
      show "?d = concat (map (\<lambda>x.
                   [toHalf g (fst (mainSound g code
                      (fragmentTime g (toFloat g rate) (toFloat g t) x))),
                    toHalf g (snd (mainSound g code
                      (fragmentTime g (toFloat g rate) (toFloat g t) x)))])
                 [0..<m])"
        by (rule chunk[OF assms(3) ev])
    qed
    then show ?thesis using same True by simp
  next
    case False
    show ?thesis
    proof (cases "framebufferComplete g m")
      case incomplete: False
      have "generateAudio g numSamples rate t w =
             (w\<lparr> texture := Some m \<rparr>, [Error FramebufferError], None)"
        using generateAudio_fails[of w numSamples g rate t] False incomplete assms(1) by simp
      then show ?thesis using same False incomplete by simp
    next
      case complete: True
      let ?w = "w\<lparr> texture := Some m, currentWidth := m \<rparr>"
      let ?d = "drawAndCopy g rate t m ?w"
      have ga: "generateAudio g numSamples rate t w = (?w, [], Some ?d)"
        using generateAudio_remade[of w numSamples g rate t] False complete assms(1) by simp
      have cp: "currentProgram ?w = Some code" using assms(3) by simp
      have ev: "evaluatedWidth g ?w m = m"
        using complete assms(2,3) by (simp add: evaluatedWidth_def)
      have "\<exists>w' d. generateAudio g numSamples rate t w = (w', [], Some d) \<and>
             currentWidth w' = m \<and> texture w' = Some m \<and> evaluatedWidth g w' m = m \<and>
             length d = m * 2 \<and>
             d = concat (map (\<lambda>x.
                   [toHalf g (fst (mainSound g code
                      (fragmentTime g (toFloat g rate) (toFloat g t) x))),
                    toHalf g (snd (mainSound g code
                      (fragmentTime g (toFloat g rate) (toFloat g t) x)))])
                 [0..<m])"
      proof (rule exI[of _ ?w], rule exI[of _ ?d], intro conjI)
        show "generateAudio g numSamples rate t w = (?w, [], Some ?d)" by (rule ga)
        show "currentWidth ?w = m" by simp
        show "texture ?w = Some m" by simp
        show "evaluatedWidth g ?w m = m" by (rule ev)
        show "length ?d = m * 2" by (rule length_drawAndCopy)
        show "?d = concat (map (\<lambda>x.
                   [toHalf g (fst (mainSound g code
                      (fragmentTime g (toFloat g rate) (toFloat g t) x))),
                    toHalf g (snd (mainSound g code
                      (fragmentTime g (toFloat g rate) (toFloat g t) x)))])
                 [0..<m])"
          by (rule chunk[OF cp ev])
      qed
      then show ?thesis using same complete by simp
    qed
  qed
qed


theorem render_clamped_witness:
  "2 = min 8192 (maxTextureSize_w servedScope) \<and>
   vertexArray servedScope \<and> currentProgram servedScope = Some tone \<and>
   currentWidth servedScope = 2 \<and> texture servedScope = Some 2 \<and>
   framebufferComplete driver 2 \<and>
   generateAudio driver 8192 48000 0 servedScope = generateAudio driver 2 48000 0 servedScope \<and>
   generateAudio driver 8192 48000 0 servedScope =
     (servedScope, [],
      Some [Finite 0, Finite 0, Finite (1 / 48000), Finite (- (1 / 48000))]) \<and>
   evaluatedWidth driver servedScope 2 = 2"
proof -
  have h: "2 = min 8192 (maxTextureSize_w servedScope)" "vertexArray servedScope"
    "currentProgram servedScope = Some tone"
    "currentWidth servedScope = 2 \<longrightarrow> texture servedScope = Some 2 \<and> framebufferComplete driver 2"
    by (simp_all add: servedScope_eq driver_def)
  have v: "currentWidth servedScope = 2" "texture servedScope = Some 2"
    "framebufferComplete driver 2"
    by (simp_all add: servedScope_eq driver_def)
  note r = render_clamped[OF h, of 48000 0]
  from r have same: "generateAudio driver 8192 48000 0 servedScope =
      generateAudio driver 2 48000 0 servedScope"
    by (rule conjunct1)
  from r have "if currentWidth servedScope \<noteq> 2 \<and> \<not> framebufferComplete driver 2
      then generateAudio driver 8192 48000 0 servedScope =
             (servedScope\<lparr> texture := Some 2 \<rparr>, [Error FramebufferError], None)
      else \<exists>w' d.
             generateAudio driver 8192 48000 0 servedScope = (w', [], Some d) \<and>
             currentWidth w' = 2 \<and> texture w' = Some 2 \<and>
             evaluatedWidth driver w' 2 = 2 \<and>
             length d = 2 * 2 \<and>
             d = concat (map (\<lambda>x.
                   [toHalf driver (fst (mainSound driver tone
                      (fragmentTime driver (toFloat driver 48000) (toFloat driver 0) x))),
                    toHalf driver (snd (mainSound driver tone
                      (fragmentTime driver (toFloat driver 48000) (toFloat driver 0) x)))])
                 [0..<2])"
    by (rule conjunct2)
  then have "\<exists>w' d.
             generateAudio driver 8192 48000 0 servedScope = (w', [], Some d) \<and>
             currentWidth w' = 2 \<and> texture w' = Some 2 \<and>
             evaluatedWidth driver w' 2 = 2 \<and>
             length d = 2 * 2 \<and>
             d = concat (map (\<lambda>x.
                   [toHalf driver (fst (mainSound driver tone
                      (fragmentTime driver (toFloat driver 48000) (toFloat driver 0) x))),
                    toHalf driver (snd (mainSound driver tone
                      (fragmentTime driver (toFloat driver 48000) (toFloat driver 0) x)))])
                 [0..<2])"
    by (simp only: v(1) simp_thms if_False)
  then obtain w' d where
    ga: "generateAudio driver 8192 48000 0 servedScope = (w', [], Some d)" and
    "currentWidth w' = 2" and "texture w' = Some 2" and
    ev: "evaluatedWidth driver w' 2 = 2" and
    "length d = 2 * 2" and
    d: "d = concat (map (\<lambda>x.
           [toHalf driver (fst (mainSound driver tone
              (fragmentTime driver (toFloat driver 48000) (toFloat driver 0) x))),
            toHalf driver (snd (mainSound driver tone
              (fragmentTime driver (toFloat driver 48000) (toFloat driver 0) x)))])
         [0..<2])"
    by (elim exE conjE) (rule that)
  have w': "w' = servedScope"
    using ga generateAudio_reused[of servedScope 8192 driver 48000 0] v(1) h(1) by simp
  have "[0..<2] = [0, 1]" by (simp add: upt_rec)
  then have "d = [Finite 0, Finite 0, Finite (1 / 48000), Finite (- (1 / 48000))]"
    unfolding d driver_time driver_sound by simp
  with ga w' ev have "generateAudio driver 8192 48000 0 servedScope =
     (servedScope, [],
      Some [Finite 0, Finite 0, Finite (1 / 48000), Finite (- (1 / 48000))])"
    and "evaluatedWidth driver servedScope 2 = 2"
    by simp_all
  with h(1-3) v same show ?thesis by (intro conjI)
qed

text \<open>
  C8 as stated fails on two requests. The first, on the worker of the playing page once
  the context is lost, needs a new framebuffer, finds it incomplete and fails: no sample
  is evaluated. The second is for the width the worker has already served, so the
  framebuffer in place is bound without a check; in the lost context nothing is drawn or
  read, no sample is evaluated, and a chunk of zeros is posted as the result.
\<close>

theorem render_unevaluated_counterexample:
  "self_onmessage lostDriver (Render 8192 48000 0) (scope (run playing newPage)) =
     ((scope (run playing newPage))\<lparr> texture := Some 8192 \<rparr>,
      [Error FramebufferError, Error GenerationFailed]) \<and>
   min 8192 (maxTextureSize_w servedScope) = 2 \<and>
   evaluatedWidth lostDriver servedScope 2 = 0 \<and>
   self_onmessage lostDriver (Render 8192 48000 0) servedScope =
     (servedScope, [AudioData [Finite 0, Finite 0, Finite 0, Finite 0]])"
proof -
  have 1: "self_onmessage lostDriver (Render 8192 48000 0) (scope (run playing newPage)) =
     ((scope (run playing newPage))\<lparr> texture := Some 8192 \<rparr>,
      [Error FramebufferError, Error GenerationFailed])"
    by (simp add: playing_page self_onmessage_def generateAudio_def lostDriver_def driver_def
          Let_def)
  have 2: "min 8192 (maxTextureSize_w servedScope) = 2"
    by (simp add: servedScope_eq)
  have 3: "evaluatedWidth lostDriver servedScope 2 = 0"
    by (simp add: evaluatedWidth_def servedScope_eq lostDriver_def)
  have "[0..<2] = [0, 1]" by (simp add: upt_rec)
  then have "drawAndCopy lostDriver 48000 0 2 servedScope =
      [Finite 0, Finite 0, Finite 0, Finite 0]"
    using pixel_blank[of _ lostDriver servedScope 2 48000 0] 3
    by (simp add: drawAndCopy_eq)
  then have 4: "self_onmessage lostDriver (Render 8192 48000 0) servedScope =
     (servedScope, [AudioData [Finite 0, Finite 0, Finite 0, Finite 0]])"
    using generateAudio_reused[of servedScope 8192 lostDriver 48000 0] 2
    by (simp add: self_onmessage_def servedScope_eq)
  from 1 2 3 4 show ?thesis by (intro conjI)
qed

text \<open>
  C9, as amended. A second \<open>dispose()\<close> returns and leaves every field of the instance
  as the first call left it. On an instance that was initialised it is not a no-op for the
  platform: \<open>close()\<close> is called on the closed context, and the rejection of its promise
  is handled by nobody.
\<close>

theorem dispose_twice:
  "dispose (dispose s) =
     (dispose s)\<lparr> console := console (dispose s) @
        (if audioContext s = None then [] else [UnhandledRejection InvalidStateError]) \<rparr>"
  by (cases "audioContext s"; cases "renderWorker s")
     (auto simp: dispose_def stop_def close_def terminate_def unhandled_def Let_def
           split: prod.splits)

text \<open>
  C9 as stated fails on the playing instance: the first \<open>dispose()\<close> reports nothing,
  the second reports the rejected \<open>close()\<close>.
\<close>

theorem dispose_twice_counterexample:
  "console (dispose playingShader) = [] \<and>
   console (dispose (dispose playingShader)) = [UnhandledRejection InvalidStateError] \<and>
   dispose (dispose playingShader) \<noteq> dispose playingShader"
proof -
  have 1: "console (dispose playingShader) = []"
    by (simp add: dispose_def stop_def close_def terminate_def unhandled_def playingShader_eq)
  have 2: "console (dispose (dispose playingShader)) = [UnhandledRejection InvalidStateError]"
    by (simp add: dispose_def stop_def close_def terminate_def unhandled_def playingShader_eq)
  from 1 2 have "console (dispose (dispose playingShader)) \<noteq> console (dispose playingShader)"
    by simp
  then have "dispose (dispose playingShader) \<noteq> dispose playingShader"
    by auto
  with 1 2 show ?thesis by (intro conjI)
qed

text \<open>
  C10, as amended. A render request on a worker without a context is not answered at
  all, and one that needs a new framebuffer and finds it incomplete is answered with two
  errors. Every other request for \<open>n\<close> samples is answered by one \<open>audioData\<close>
  message of \<open>2 * m\<close> values, \<open>m = min(n, maxTextureSize)\<close>: value \<open>2i\<close> is the red
  and value \<open>2i + 1\<close> the green component read back for pixel \<open>i\<close>, which are the half
  floats of the left and right results of \<open>mainSound\<close> for the columns that were shaded
  and zeros for the others. Given to a running instance (for \<open>m > 0\<close>), that chunk
  becomes a unit of \<open>m\<close> frames whose channel 0 holds the even-indexed and channel 1 the
  odd-indexed values.
\<close>

theorem chunk_layout:
  assumes "m = min n (maxTextureSize_w w)"
  shows "(\<not> gl w \<longrightarrow> self_onmessage g (Render n rate t) w = (w, [])) \<and>
     (gl w \<and> currentWidth w \<noteq> m \<and> \<not> framebufferComplete g m \<longrightarrow>
        self_onmessage g (Render n rate t) w =
          (w\<lparr> texture := Some m \<rparr>, [Error FramebufferError, Error GenerationFailed])) \<and>
     (gl w \<and> (currentWidth w = m \<or> framebufferComplete g m) \<longrightarrow>
        (\<exists>w' d.
           self_onmessage g (Render n rate t) w = (w', [AudioData d]) \<and>
           length d = m * 2 \<and>
           (\<forall>i < m.
              d ! (i * 2) = readPixels g w' rate t m ! (i * 4) \<and>
              d ! (i * 2 + 1) = readPixels g w' rate t m ! (i * 4 + 1)) \<and>
           (\<forall>code. currentProgram w' = Some code \<longrightarrow>
              (\<forall>i < evaluatedWidth g w' m.
                 d ! (i * 2) = toHalf g (fst (mainSound g code
                   (fragmentTime g (toFloat g rate) (toFloat g t) i))) \<and>
                 d ! (i * 2 + 1) = toHalf g (snd (mainSound g code
                   (fragmentTime g (toFloat g rate) (toFloat g t) i))))) \<and>
           (\<forall>i < m. evaluatedWidth g w' m \<le> i \<longrightarrow>
              d ! (i * 2) = Finite 0 \<and> d ! (i * 2 + 1) = Finite 0) \<and>
           (\<forall>s c now. isRunning s \<and> audioContext s = Some c \<and> 0 < m \<longrightarrow>
              (\<exists>s' b.
                 onAudioDataGenerated now d s = Return s' \<and>
                 nodes s' = nodes s @
                   [\<lparr> buffer = Some b,
                      startedAt = Some (max (scheduledUntil s) (now + 1 / 10)),
                      stopped = False, isConnected = True \<rparr>] \<and>
                 length (channel0 b) = m \<and> length (channel1 b) = m \<and>
                 (\<forall>i < m. channel0 b ! i = d ! (i * 2) \<and> channel1 b ! i = d ! (i * 2 + 1))))))"
proof (intro conjI impI)
  assume "\<not> gl w"
  then show "self_onmessage g (Render n rate t) w = (w, [])"
    by (simp add: self_onmessage_def)
next
  assume "gl w \<and> currentWidth w \<noteq> m \<and> \<not> framebufferComplete g m"
  then show "self_onmessage g (Render n rate t) w =
      (w\<lparr> texture := Some m \<rparr>, [Error FramebufferError, Error GenerationFailed])"
    using generateAudio_fails[of w n g rate t] assms by (simp add: self_onmessage_def)
next
  assume served: "gl w \<and> (currentWidth w = m \<or> framebufferComplete g m)"
  define w' where "w' = (if currentWidth w = m then w
                         else w\<lparr> texture := Some m, currentWidth := m \<rparr>)"
  let ?d = "drawAndCopy g rate t m w'"
  have ga: "generateAudio g n rate t w = (w', [], Some ?d)"
  proof (cases "currentWidth w = m")
    case True
    then show ?thesis
      using generateAudio_reused[of w n g rate t] assms by (simp add: w'_def)
  next
    case False
    then show ?thesis
      using generateAudio_remade[of w n g rate t] served assms by (simp add: w'_def)
  qed
  have msg: "self_onmessage g (Render n rate t) w = (w', [AudioData ?d])"
    using served ga by (simp add: self_onmessage_def)
  have len: "length ?d = m * 2" by (rule length_drawAndCopy)
  have pix: "\<forall>i < m. ?d ! (i * 2) = readPixels g w' rate t m ! (i * 4) \<and>
      ?d ! (i * 2 + 1) = readPixels g w' rate t m ! (i * 4 + 1)"
    using drawAndCopy_nth[of _ m g rate t w'] by blast
  have ev_le: "evaluatedWidth g w' m \<le> m"
    by (simp add: evaluatedWidth_def split: option.splits)
  have shaded: "\<forall>code. currentProgram w' = Some code \<longrightarrow>
      (\<forall>i < evaluatedWidth g w' m.
         ?d ! (i * 2) = toHalf g (fst (mainSound g code
           (fragmentTime g (toFloat g rate) (toFloat g t) i))) \<and>
         ?d ! (i * 2 + 1) = toHalf g (snd (mainSound g code
           (fragmentTime g (toFloat g rate) (toFloat g t) i))))"
  proof (intro allI impI)
    fix code i
    assume cp: "currentProgram w' = Some code" and i: "i < evaluatedWidth g w' m"
    from i ev_le have "i < m" by simp
    from drawAndCopy_pixel[OF this, of g rate t w'] pixel_shaded[OF cp i, of rate t]
    show "?d ! (i * 2) = toHalf g (fst (mainSound g code
           (fragmentTime g (toFloat g rate) (toFloat g t) i))) \<and>
         ?d ! (i * 2 + 1) = toHalf g (snd (mainSound g code
           (fragmentTime g (toFloat g rate) (toFloat g t) i)))"
      by simp
  qed
  have blank: "\<forall>i < m. evaluatedWidth g w' m \<le> i \<longrightarrow>
      ?d ! (i * 2) = Finite 0 \<and> ?d ! (i * 2 + 1) = Finite 0"
  proof (intro allI impI)
    fix i
    assume i: "i < m" and "evaluatedWidth g w' m \<le> i"
    then have "\<not> i < evaluatedWidth g w' m" by simp
    from drawAndCopy_pixel[OF i, of g rate t w'] pixel_blank[OF this, of rate t]
    show "?d ! (i * 2) = Finite 0 \<and> ?d ! (i * 2 + 1) = Finite 0" by simp
  qed
  have unit: "\<forall>s c now. isRunning s \<and> audioContext s = Some c \<and> 0 < m \<longrightarrow>
      (\<exists>s' b.
         onAudioDataGenerated now ?d s = Return s' \<and>
         nodes s' = nodes s @
           [\<lparr> buffer = Some b, startedAt = Some (max (scheduledUntil s) (now + 1 / 10)),
              stopped = False, isConnected = True \<rparr>] \<and>
         length (channel0 b) = m \<and> length (channel1 b) = m \<and>
         (\<forall>i < m. channel0 b ! i = ?d ! (i * 2) \<and> channel1 b ! i = ?d ! (i * 2 + 1)))"
  proof (intro allI impI)
    fix s :: WebGLAudioShader and c :: AudioContext and now :: seconds
    assume a: "isRunning s \<and> audioContext s = Some c \<and> 0 < m"
    let ?b = "chunkBuffer ?d (sampleRate c)"
    let ?s' = "s\<lparr> nodes := nodes s @
                   [\<lparr> buffer = Some ?b,
                      startedAt = Some (max (scheduledUntil s) (now + 1 / 10)),
                      stopped = False, isConnected = True \<rparr>],
                scheduledSources := scheduledSources s @ [length (nodes s)],
                scheduledUntil := max (scheduledUntil s) (now + 1 / 10) + duration ?b,
                currentTime := currentTime s + duration ?b \<rparr>"
    have two: "2 \<le> length ?d" using a len by simp
    have half: "length ?d div 2 = m" using len by simp
    have sched: "onAudioDataGenerated now ?d s = Return ?s'"
      using a by (intro onAudioDataGenerated_running two) simp_all
    have chan: "length (channel0 ?b) = m" "length (channel1 ?b) = m"
      "\<forall>i < m. channel0 ?b ! i = ?d ! (i * 2) \<and> channel1 ?b ! i = ?d ! (i * 2 + 1)"
      by (simp_all add: chunkBuffer_def half)
    show "\<exists>s' b.
         onAudioDataGenerated now ?d s = Return s' \<and>
         nodes s' = nodes s @
           [\<lparr> buffer = Some b, startedAt = Some (max (scheduledUntil s) (now + 1 / 10)),
              stopped = False, isConnected = True \<rparr>] \<and>
         length (channel0 b) = m \<and> length (channel1 b) = m \<and>
         (\<forall>i < m. channel0 b ! i = ?d ! (i * 2) \<and> channel1 b ! i = ?d ! (i * 2 + 1))"
    proof (intro exI conjI)
      show "onAudioDataGenerated now ?d s = Return ?s'" by (rule sched)
      show "nodes ?s' = nodes s @
           [\<lparr> buffer = Some ?b, startedAt = Some (max (scheduledUntil s) (now + 1 / 10)),
              stopped = False, isConnected = True \<rparr>]" by simp
      show "length (channel0 ?b) = m" by (rule chan(1))
      show "length (channel1 ?b) = m" by (rule chan(2))
      show "\<forall>i < m. channel0 ?b ! i = ?d ! (i * 2) \<and> channel1 ?b ! i = ?d ! (i * 2 + 1)"
        by (rule chan(3))
    qed
  qed
  show "\<exists>w' d.
           self_onmessage g (Render n rate t) w = (w', [AudioData d]) \<and>
           length d = m * 2 \<and>
           (\<forall>i < m.
              d ! (i * 2) = readPixels g w' rate t m ! (i * 4) \<and>
              d ! (i * 2 + 1) = readPixels g w' rate t m ! (i * 4 + 1)) \<and>
           (\<forall>code. currentProgram w' = Some code \<longrightarrow>
              (\<forall>i < evaluatedWidth g w' m.
                 d ! (i * 2) = toHalf g (fst (mainSound g code
                   (fragmentTime g (toFloat g rate) (toFloat g t) i))) \<and>
                 d ! (i * 2 + 1) = toHalf g (snd (mainSound g code
                   (fragmentTime g (toFloat g rate) (toFloat g t) i))))) \<and>
           (\<forall>i < m. evaluatedWidth g w' m \<le> i \<longrightarrow>
              d ! (i * 2) = Finite 0 \<and> d ! (i * 2 + 1) = Finite 0) \<and>
           (\<forall>s c now. isRunning s \<and> audioContext s = Some c \<and> 0 < m \<longrightarrow>
              (\<exists>s' b.
                 onAudioDataGenerated now d s = Return s' \<and>
                 nodes s' = nodes s @
                   [\<lparr> buffer = Some b,
                      startedAt = Some (max (scheduledUntil s) (now + 1 / 10)),
                      stopped = False, isConnected = True \<rparr>] \<and>
                 length (channel0 b) = m \<and> length (channel1 b) = m \<and>
                 (\<forall>i < m. channel0 b ! i = d ! (i * 2) \<and> channel1 b ! i = d ! (i * 2 + 1))))"
  proof (rule exI[of _ w'], rule exI[of _ ?d], intro conjI)
    show "self_onmessage g (Render n rate t) w = (w', [AudioData ?d])" by (rule msg)
    show "length ?d = m * 2" by (rule len)
  qed (rule pix, rule shaded, rule blank, rule unit)
qed

theorem chunk_layout_witness:
  "2 = min 8192 (maxTextureSize_w narrowScope) \<and>
   gl narrowScope \<and> framebufferComplete driver 2 \<and>
   isRunning playingShader \<and>
   audioContext playingShader = Some \<lparr> sampleRate = 48000, contextState = Running \<rparr> \<and>
   (\<exists>w' d.
      self_onmessage driver (Render 8192 48000 0) narrowScope = (w', [AudioData d]) \<and>
      length d = 4 \<and> d ! 2 = Finite (1 / 48000) \<and> d ! 3 = Finite (- (1 / 48000)) \<and>
      (\<exists>s' b.
         onAudioDataGenerated (1 / 100) d playingShader = Return s' \<and>
         nodes s' =
           [\<lparr> buffer = Some b, startedAt = Some (11 / 100), stopped = False,
              isConnected = True \<rparr>] \<and>
         length (channel0 b) = 2 \<and> length (channel1 b) = 2 \<and>
         channel0 b ! 1 = Finite (1 / 48000) \<and> channel1 b ! 1 = Finite (- (1 / 48000))))"
proof -
  let ?c = "\<lparr> sampleRate = 48000, contextState = Running \<rparr>"
  have m: "2 = min 8192 (maxTextureSize_w narrowScope)"
    by (simp add: narrowScope_def)
  have h: "gl narrowScope" "framebufferComplete driver 2"
    by (simp_all add: narrowScope_def driver_def)
  have p: "isRunning playingShader" "audioContext playingShader = Some ?c"
    by (simp_all add: playingShader_eq)
  have served: "gl narrowScope \<and> (currentWidth narrowScope = 2 \<or> framebufferComplete driver 2)"
    using h by simp
  note r = chunk_layout[OF m, of driver 48000 0]
  from r have "gl narrowScope \<and> (currentWidth narrowScope = 2 \<or> framebufferComplete driver 2) \<longrightarrow>
        (\<exists>w' d.
           self_onmessage driver (Render 8192 48000 0) narrowScope = (w', [AudioData d]) \<and>
           length d = 2 * 2 \<and>
           (\<forall>i < 2.
              d ! (i * 2) = readPixels driver w' 48000 0 2 ! (i * 4) \<and>
              d ! (i * 2 + 1) = readPixels driver w' 48000 0 2 ! (i * 4 + 1)) \<and>
           (\<forall>code. currentProgram w' = Some code \<longrightarrow>
              (\<forall>i < evaluatedWidth driver w' 2.
                 d ! (i * 2) = toHalf driver (fst (mainSound driver code
                   (fragmentTime driver (toFloat driver 48000) (toFloat driver 0) i))) \<and>
                 d ! (i * 2 + 1) = toHalf driver (snd (mainSound driver code
                   (fragmentTime driver (toFloat driver 48000) (toFloat driver 0) i))))) \<and>
           (\<forall>i < 2. evaluatedWidth driver w' 2 \<le> i \<longrightarrow>
              d ! (i * 2) = Finite 0 \<and> d ! (i * 2 + 1) = Finite 0) \<and>
           (\<forall>s c now. isRunning s \<and> audioContext s = Some c \<and> 0 < (2 :: nat) \<longrightarrow>
              (\<exists>s' b.
                 onAudioDataGenerated now d s = Return s' \<and>
                 nodes s' = nodes s @
                   [\<lparr> buffer = Some b,
                      startedAt = Some (max (scheduledUntil s) (now + 1 / 10)),
                      stopped = False, isConnected = True \<rparr>] \<and>
                 length (channel0 b) = 2 \<and> length (channel1 b) = 2 \<and>
                 (\<forall>i < 2. channel0 b ! i = d ! (i * 2) \<and> channel1 b ! i = d ! (i * 2 + 1)))))"
    by (rule conjunct2[THEN conjunct2])
  from this[rule_format, OF served] obtain w' d where
    msg: "self_onmessage driver (Render 8192 48000 0) narrowScope = (w', [AudioData d])" and
    len: "length d = 2 * 2" and
    "\<forall>i < 2.
        d ! (i * 2) = readPixels driver w' 48000 0 2 ! (i * 4) \<and>
        d ! (i * 2 + 1) = readPixels driver w' 48000 0 2 ! (i * 4 + 1)" and
    shaded: "\<forall>code. currentProgram w' = Some code \<longrightarrow>
        (\<forall>i < evaluatedWidth driver w' 2.
           d ! (i * 2) = toHalf driver (fst (mainSound driver code
             (fragmentTime driver (toFloat driver 48000) (toFloat driver 0) i))) \<and>
           d ! (i * 2 + 1) = toHalf driver (snd (mainSound driver code
             (fragmentTime driver (toFloat driver 48000) (toFloat driver 0) i))))" and
    "\<forall>i < 2. evaluatedWidth driver w' 2 \<le> i \<longrightarrow>
        d ! (i * 2) = Finite 0 \<and> d ! (i * 2 + 1) = Finite 0" and
    unit: "\<forall>s c now. isRunning s \<and> audioContext s = Some c \<and> 0 < (2 :: nat) \<longrightarrow>
        (\<exists>s' b.
           onAudioDataGenerated now d s = Return s' \<and>
           nodes s' = nodes s @
             [\<lparr> buffer = Some b,
                startedAt = Some (max (scheduledUntil s) (now + 1 / 10)),
                stopped = False, isConnected = True \<rparr>] \<and>
           length (channel0 b) = 2 \<and> length (channel1 b) = 2 \<and>
           (\<forall>i < 2. channel0 b ! i = d ! (i * 2) \<and> channel1 b ! i = d ! (i * 2 + 1)))"
    by (erule_tac exE, erule_tac exE, elim conjE) (rule that)
  have w': "w' = servedScope"
    by (simp add: servedScope_def msg)
  have cp: "currentProgram w' = Some tone" and ev: "evaluatedWidth driver w' 2 = 2"
    by (simp_all add: w' servedScope_eq evaluatedWidth_def driver_def)
  have one: "(1 :: nat) < evaluatedWidth driver w' 2" by (simp add: ev)
  from shaded[rule_format, OF cp one]
  have d2: "d ! 2 = Finite (1 / 48000)" and d3: "d ! 3 = Finite (- (1 / 48000))"
    by (simp_all add: driver_time driver_sound)
  have len4: "length d = 4" using len by simp
  have "isRunning playingShader \<and> audioContext playingShader = Some ?c \<and> 0 < (2 :: nat)"
    using p by simp
  from unit[rule_format, OF this, of "1 / 100"] obtain s' b where
    ret: "onAudioDataGenerated (1 / 100) d playingShader = Return s'" and
    n: "nodes s' = nodes playingShader @
             [\<lparr> buffer = Some b,
                startedAt = Some (max (scheduledUntil playingShader) (1 / 100 + 1 / 10)),
                stopped = False, isConnected = True \<rparr>]" and
    l0: "length (channel0 b) = 2" and l1: "length (channel1 b) = 2" and
    ch: "\<forall>i < 2. channel0 b ! i = d ! (i * 2) \<and> channel1 b ! i = d ! (i * 2 + 1)"
    by (elim exE conjE) (rule that)
  have n': "nodes s' =
           [\<lparr> buffer = Some b, startedAt = Some (11 / 100), stopped = False,
              isConnected = True \<rparr>]"
    using n by (simp add: playingShader_eq)
  have "(1 :: nat) < 2" by simp
  from ch[rule_format, OF this] d2 d3
  have c0: "channel0 b ! 1 = Finite (1 / 48000)" and c1: "channel1 b ! 1 = Finite (- (1 / 48000))"
    by simp_all
  have inner: "\<exists>s' b.
         onAudioDataGenerated (1 / 100) d playingShader = Return s' \<and>
         nodes s' =
           [\<lparr> buffer = Some b, startedAt = Some (11 / 100), stopped = False,
              isConnected = True \<rparr>] \<and>
         length (channel0 b) = 2 \<and> length (channel1 b) = 2 \<and>
         channel0 b ! 1 = Finite (1 / 48000) \<and> channel1 b ! 1 = Finite (- (1 / 48000))"
    using ret n' l0 l1 c0 c1 by (intro exI[of _ s'] exI[of _ b] conjI)
  have "\<exists>w' d.
      self_onmessage driver (Render 8192 48000 0) narrowScope = (w', [AudioData d]) \<and>
      length d = 4 \<and> d ! 2 = Finite (1 / 48000) \<and> d ! 3 = Finite (- (1 / 48000)) \<and>
      (\<exists>s' b.
         onAudioDataGenerated (1 / 100) d playingShader = Return s' \<and>
         nodes s' =
           [\<lparr> buffer = Some b, startedAt = Some (11 / 100), stopped = False,
              isConnected = True \<rparr>] \<and>
         length (channel0 b) = 2 \<and> length (channel1 b) = 2 \<and>
         channel0 b ! 1 = Finite (1 / 48000) \<and> channel1 b ! 1 = Finite (- (1 / 48000)))"
    using msg len4 d2 d3 inner by (intro exI[of _ w'] exI[of _ d] conjI)
  with m h p show ?thesis by (intro conjI)
qed

text \<open>
  C10 as stated fails on a request that is not answered with a chunk: on a worker whose
  context was never acquired the request is not answered at all, and on a worker whose
  new framebuffer is incomplete it is answered with two errors.
\<close>

theorem no_chunk_counterexample:
  "self_onmessage driver (Render 8192 48000 0) workerScript = (workerScript, []) \<and>
   self_onmessage lostDriver (Render 8192 48000 0) narrowScope =
     (narrowScope\<lparr> texture := Some 2 \<rparr>, [Error FramebufferError, Error GenerationFailed])"
  by (simp add: self_onmessage_def generateAudio_def workerScript_def narrowScope_def
        lostDriver_def driver_def Let_def)

end
